theory Spec2Isabelle
  imports Main
begin

section \<open>The theme switcher of assets/js/theme-switcher.js\<close>

text \<open>
  The script is one closure with four module variables (\<open>themeSwitcher\<close>,
  \<open>themeIcon\<close>, \<open>currentTheme\<close>, \<open>systemPrefersDark\<close>) over the browser: the
  document, the elements it reaches, \<open>window.matchMedia\<close>, \<open>localStorage\<close> and the
  console. The model is one record holding both, passed through every function and
  returned updated. A JavaScript exception is a value: a function returns either the
  world it leaves behind, or the exception together with the world at the throw.
\<close>

subsection \<open>Constants\<close>

definition LIGHT :: string where "LIGHT = ''light''"
definition DARK :: string where "DARK = ''dark''"
definition AUTO :: string where "AUTO = ''auto''"

definition THEMES_values :: "string list" where
  \<comment> \<open>\<open>Object.values(THEMES)\<close>, in the order of the object literal\<close>
  "THEMES_values = [LIGHT, DARK, AUTO]"

definition STORAGE_KEY :: string where "STORAGE_KEY = ''preferred-theme''"
definition BODY_CLASS_LIGHT :: string where "BODY_CLASS_LIGHT = ''manual-light''"
definition BODY_CLASS_DARK :: string where "BODY_CLASS_DARK = ''manual-dark''"

definition ICON_CLASSES :: "string list" where
  \<comment> \<open>the three tokens \<open>updateThemeIcon\<close> removes\<close>
  "ICON_CLASSES = [''fa-moon'', ''fa-sun'', ''fa-adjust'']"

subsection \<open>The browser and the module state\<close>

type_synonym node = nat

record element =
  classList :: "string list"
  attributes :: "string \<rightharpoonup> string"

datatype exn = TypeError | DOMException

datatype target = Document | DarkMediaQuery | Node node

datatype handler = H_init | H_handleSystemThemeChange | H_handleThemeToggle | H_handleKeyDown

record world =
  \<comment> \<open>module variables, lines 22 to 27\<close>
  themeSwitcher :: "node option"
  themeIcon :: "node option"
  currentTheme :: string
  systemPrefersDark :: bool
  \<comment> \<open>the document\<close>
  readyState :: string
  getElementById :: "string \<Rightarrow> node option"
  querySelector :: "node \<Rightarrow> string \<Rightarrow> node option"
  document_body :: "node option"
  elements :: "node \<Rightarrow> element"
  listeners :: "(target \<times> string \<times> handler) list"
  \<comment> \<open>\<open>window.matchMedia\<close>: \<open>None\<close> when the function is missing, otherwise
      the \<open>matches\<close> of the query \<open>(prefers-color-scheme: dark)\<close>\<close>
  matchMedia :: "bool option"
  \<comment> \<open>\<open>localStorage\<close>, and whether a read or a write of it throws\<close>
  localStorage :: "string \<rightharpoonup> string"
  storage_getItem_throws :: bool
  storage_setItem_throws :: bool
  \<comment> \<open>what \<open>console.warn\<close> has printed: the message and the exception passed\<close>
  console :: "(string \<times> exn option) list"

type_synonym result = "exn \<times> world + world"

definition world_of :: "result \<Rightarrow> world" where
  "world_of r = (case r of Inl (e, w) \<Rightarrow> w | Inr w \<Rightarrow> w)"

definition seq :: "(world \<Rightarrow> result) \<Rightarrow> (world \<Rightarrow> result) \<Rightarrow> world \<Rightarrow> result" where
  \<comment> \<open>two statements in a row: the second runs only if the first did not throw\<close>
  "seq f g w = (case f w of Inl x \<Rightarrow> Inl x | Inr w' \<Rightarrow> g w')"

definition try_catch ::
  "(world \<Rightarrow> result) \<Rightarrow> (exn \<Rightarrow> world \<Rightarrow> result) \<Rightarrow> world \<Rightarrow> result" where
  \<comment> \<open>\<open>try { body } catch (e) { handler }\<close>: what the body wrote before the throw stays\<close>
  "try_catch body handler w =
     (case body w of Inl (e, w') \<Rightarrow> handler e w' | Inr w' \<Rightarrow> Inr w')"

subsection \<open>Browser operations\<close>

definition classList_remove :: "string list \<Rightarrow> string list \<Rightarrow> string list" where
  "classList_remove ts cs = filter (\<lambda>c. c \<notin> set ts) cs"

definition classList_add :: "string \<Rightarrow> string list \<Rightarrow> string list" where
  "classList_add t cs = (if t \<in> set cs then cs else cs @ [t])"

definition update_classList :: "node \<Rightarrow> (string list \<Rightarrow> string list) \<Rightarrow> world \<Rightarrow> world" where
  "update_classList n f w =
     w\<lparr>elements := (elements w)(n := (elements w n)\<lparr>classList := f (classList (elements w n))\<rparr>)\<rparr>"

definition setAttribute :: "node \<Rightarrow> string \<Rightarrow> string option \<Rightarrow> world \<Rightarrow> world" where
  \<comment> \<open>the value is converted to a string: \<open>undefined\<close> becomes the text \<open>undefined\<close>\<close>
  "setAttribute n name v w =
     w\<lparr>elements := (elements w)(n := (elements w n)
        \<lparr>attributes := (attributes (elements w n))
           (name \<mapsto> (case v of None \<Rightarrow> ''undefined'' | Some s \<Rightarrow> s))\<rparr>)\<rparr>"

definition addEventListener :: "target \<Rightarrow> string \<Rightarrow> handler \<Rightarrow> world \<Rightarrow> world" where
  \<comment> \<open>a listener already registered for the same event is not added again\<close>
  "addEventListener t ev h w =
     (if (t, ev, h) \<in> set (listeners w) then w
      else w\<lparr>listeners := listeners w @ [(t, ev, h)]\<rparr>)"

definition console_warn :: "string \<Rightarrow> exn option \<Rightarrow> world \<Rightarrow> world" where
  "console_warn msg e w = w\<lparr>console := console w @ [(msg, e)]\<rparr>"

definition localStorage_getItem :: "world \<Rightarrow> string \<Rightarrow> exn + string option" where
  "localStorage_getItem w k =
     (if storage_getItem_throws w then Inl DOMException else Inr (localStorage w k))"

definition localStorage_setItem :: "string \<Rightarrow> string \<Rightarrow> world \<Rightarrow> result" where
  "localStorage_setItem k v w =
     (if storage_setItem_throws w then Inl (DOMException, w)
      else Inr (w\<lparr>localStorage := (localStorage w)(k \<mapsto> v)\<rparr>))"

subsection \<open>The functions of the script\<close>

definition updateThemeIcon :: "string \<Rightarrow> world \<Rightarrow> result" where
  "updateThemeIcon effectiveTheme w =
     (case themeIcon w of
        None \<Rightarrow> Inr w
      | Some icon \<Rightarrow>
          let w1 = update_classList icon (classList_remove ICON_CLASSES) w
          in Inr (if currentTheme w1 = AUTO then update_classList icon (classList_add ''fa-adjust'') w1
                  else if effectiveTheme = DARK then update_classList icon (classList_add ''fa-sun'') w1
                  else update_classList icon (classList_add ''fa-moon'') w1))"

definition tooltip_of :: "string \<Rightarrow> string option" where
  \<comment> \<open>the \<open>switch\<close> of \<open>updateThemeTooltip\<close>; it has no default, so any other
      value leaves \<open>tooltip\<close> undefined\<close>
  "tooltip_of theme =
     (if theme = AUTO then Some ''Switch to light mode''
      else if theme = LIGHT then Some ''Switch to dark mode''
      else if theme = DARK then Some ''Switch to auto mode''
      else None)"

definition updateThemeTooltip :: "world \<Rightarrow> result" where
  "updateThemeTooltip w =
     (case themeSwitcher w of
        None \<Rightarrow> Inr w
      | Some sw \<Rightarrow>
          let tooltip = tooltip_of (currentTheme w)
          in Inr (setAttribute sw ''aria-label'' tooltip (setAttribute sw ''title'' tooltip w)))"

definition effectiveTheme_of :: "world \<Rightarrow> string" where
  \<comment> \<open>the local \<open>effectiveTheme\<close> of \<open>applyTheme\<close>, lines 129 to 134\<close>
  "effectiveTheme_of w =
     (if currentTheme w = AUTO then (if systemPrefersDark w then DARK else LIGHT)
      else currentTheme w)"

definition applyTheme :: "world \<Rightarrow> result" where
  \<comment> \<open>\<open>document.body\<close> is read without a guard: on a document with no body the
      call \<open>body.classList\<close> is a TypeError\<close>
  "applyTheme w =
     (case document_body w of
        None \<Rightarrow> Inl (TypeError, w)
      | Some body \<Rightarrow>
          let w1 = update_classList body (classList_remove [BODY_CLASS_LIGHT, BODY_CLASS_DARK]) w;
              effectiveTheme = effectiveTheme_of w1;
              w2 = (if effectiveTheme = DARK then update_classList body (classList_add BODY_CLASS_DARK) w1
                    else update_classList body (classList_add BODY_CLASS_LIGHT) w1)
          in seq (updateThemeIcon effectiveTheme) updateThemeTooltip w2)"

definition loadThemePreference :: "world \<Rightarrow> result" where
  "loadThemePreference =
     try_catch
       (\<lambda>w. case localStorage_getItem w STORAGE_KEY of
               Inl e \<Rightarrow> Inl (e, w)
             | Inr saved \<Rightarrow>
                 (case saved of
                    None \<Rightarrow> Inr w
                  | Some s \<Rightarrow>
                      if s \<noteq> [] \<and> s \<in> set THEMES_values then Inr (w\<lparr>currentTheme := s\<rparr>)
                      else Inr w))
       (\<lambda>e w. Inr (console_warn ''Could not load theme preference:'' (Some e) w))"

definition saveThemePreference :: "world \<Rightarrow> result" where
  "saveThemePreference =
     try_catch
       (\<lambda>w. localStorage_setItem STORAGE_KEY (currentTheme w) w)
       (\<lambda>e w. Inr (console_warn ''Could not save theme preference:'' (Some e) w))"

definition toggleTheme_switch :: "world \<Rightarrow> world" where
  \<comment> \<open>the \<open>switch\<close> of \<open>toggleTheme\<close>, lines 101 to 113; it has no default\<close>
  "toggleTheme_switch w =
     (if currentTheme w = AUTO
      then w\<lparr>currentTheme := (if systemPrefersDark w then LIGHT else DARK)\<rparr>
      else if currentTheme w = LIGHT then w\<lparr>currentTheme := DARK\<rparr>
      else if currentTheme w = DARK then w\<lparr>currentTheme := AUTO\<rparr>
      else w)"

definition toggleTheme :: "world \<Rightarrow> result" where
  "toggleTheme w = seq saveThemePreference applyTheme (toggleTheme_switch w)"

definition handleSystemThemeChange :: "bool \<Rightarrow> world \<Rightarrow> result" where
  \<comment> \<open>the argument is \<open>e.matches\<close>\<close>
  "handleSystemThemeChange matches w =
     (let w1 = w\<lparr>systemPrefersDark := matches\<rparr>
      in if currentTheme w1 = AUTO then applyTheme w1 else Inr w1)"

definition handleThemeToggle :: "world \<Rightarrow> result" where
  \<comment> \<open>\<open>e.preventDefault()\<close> acts on the event and leaves the module and the page alone\<close>
  "handleThemeToggle w = toggleTheme w"

definition handleKeyDown :: "string \<Rightarrow> world \<Rightarrow> result" where
  \<comment> \<open>the argument is \<open>e.key\<close>\<close>
  "handleKeyDown key w = (if key = ''Enter'' \<or> key = '' '' then toggleTheme w else Inr w)"

definition init :: "world \<Rightarrow> result" where
  "init w =
     (if readyState w = ''loading''
      then Inr (addEventListener Document ''DOMContentLoaded'' H_init w)
      else
        let w1 = w\<lparr>themeSwitcher := getElementById w ''theme-switcher''\<rparr>;
            w2 = w1\<lparr>themeIcon := (case themeSwitcher w1 of
                                     None \<Rightarrow> None
                                   | Some sw \<Rightarrow> querySelector w1 sw ''.theme-icon'')\<rparr>
        in (case themeSwitcher w2 of
             None \<Rightarrow> Inr (console_warn ''Theme switcher elements not found'' None w2)
           | Some sw \<Rightarrow>
               (case themeIcon w2 of
                  None \<Rightarrow> Inr (console_warn ''Theme switcher elements not found'' None w2)
                | Some icon \<Rightarrow>
                    let w3 = (case matchMedia w2 of
                                None \<Rightarrow> w2
                              | Some m \<Rightarrow>
                                  addEventListener DarkMediaQuery ''change'' H_handleSystemThemeChange
                                    (w2\<lparr>systemPrefersDark := m\<rparr>))
                    in (case seq loadThemePreference applyTheme w3 of
                          Inl x \<Rightarrow> Inl x
                        | Inr w4 \<Rightarrow>
                            Inr (addEventListener (Node sw) ''keydown'' H_handleKeyDown
                                  (addEventListener (Node sw) ''click'' H_handleThemeToggle w4))))))"

record theme_info =
  current :: string
  effective :: string

definition getCurrentTheme :: "world \<Rightarrow> theme_info" where
  "getCurrentTheme w =
     \<lparr>current = currentTheme w,
      effective = (if currentTheme w = AUTO
                   then (if systemPrefersDark w then DARK else LIGHT)
                   else currentTheme w)\<rparr>"

subsection \<open>Driving the module\<close>

definition fresh_module :: "world \<Rightarrow> world" where
  \<comment> \<open>the script loaded anew (a page load): lines 22 to 27 run again, the browser's
      storage is what the last page left\<close>
  "fresh_module w =
     w\<lparr>themeSwitcher := None, themeIcon := None, currentTheme := AUTO,
       systemPrefersDark := False\<rparr>"

fun toggles :: "nat \<Rightarrow> world \<Rightarrow> world" where
  \<comment> \<open>\<open>n\<close> calls of \<open>toggleTheme\<close>, each one an event of its own: a call that
      throws does not keep the next one from running\<close>
  "toggles 0 w = w"
| "toggles (Suc n) w = toggles n (world_of (toggleTheme w))"

inductive reachable :: "world \<Rightarrow> bool" where
  start: "reachable (fresh_module w)"
| by_init: "reachable w \<Longrightarrow> reachable (world_of (init w))"
| by_toggle: "reachable w \<Longrightarrow> reachable (world_of (toggleTheme w))"
| by_click: "reachable w \<Longrightarrow> reachable (world_of (handleThemeToggle w))"
| by_key: "reachable w \<Longrightarrow> reachable (world_of (handleKeyDown key w))"
| by_system: "reachable w \<Longrightarrow> reachable (world_of (handleSystemThemeChange m w))"

definition theme_applied :: "world \<Rightarrow> bool" where
  \<comment> \<open>the page shows the state: the body carries the one theme class of the effective
      theme, the icon (if found) the one glyph class, the switcher (if found) the tooltip
      in \<open>title\<close> and \<open>aria-label\<close>\<close>
  "theme_applied w \<longleftrightarrow>
     (case document_body w of
        None \<Rightarrow> False
      | Some body \<Rightarrow>
          filter (\<lambda>c. c \<in> set [BODY_CLASS_LIGHT, BODY_CLASS_DARK]) (classList (elements w body)) =
            [if effectiveTheme_of w = DARK then BODY_CLASS_DARK else BODY_CLASS_LIGHT]) \<and>
     (case themeIcon w of
        None \<Rightarrow> True
      | Some icon \<Rightarrow>
          filter (\<lambda>c. c \<in> set ICON_CLASSES) (classList (elements w icon)) =
            [if currentTheme w = AUTO then ''fa-adjust''
             else if effectiveTheme_of w = DARK then ''fa-sun'' else ''fa-moon'']) \<and>
     (case themeSwitcher w of
        None \<Rightarrow> True
      | Some sw \<Rightarrow>
          attributes (elements w sw) ''title'' =
            Some (case tooltip_of (currentTheme w) of None \<Rightarrow> ''undefined'' | Some s \<Rightarrow> s) \<and>
          attributes (elements w sw) ''aria-label'' = attributes (elements w sw) ''title'')"

definition example_page :: world where
  \<comment> \<open>a loaded page: the body is node 0, the switcher node 1, its icon node 2; the
      system prefers dark, nothing is stored\<close>
  "example_page =
     \<lparr>themeSwitcher = Some 1, themeIcon = Some 2, currentTheme = AUTO, systemPrefersDark = True,
      readyState = ''complete'',
      getElementById = (\<lambda>i. if i = ''theme-switcher'' then Some 1 else None),
      querySelector = (\<lambda>n sel. if n = 1 \<and> sel = ''.theme-icon'' then Some 2 else None),
      document_body = Some 0,
      elements = (\<lambda>n. \<lparr>classList = (if n = 2 then [''theme-icon'', ''fas''] else []),
                           attributes = Map.empty\<rparr>),
      listeners = [],
      matchMedia = Some True,
      localStorage = Map.empty,
      storage_getItem_throws = False,
      storage_setItem_throws = False,
      console = []\<rparr>"


definition bare_page :: world where
  \<comment> \<open>the same page without the switcher, the script just loaded, \<open>light\<close> stored\<close>
  "bare_page =
     fresh_module (example_page\<lparr>getElementById := (\<lambda>i. None),
                                 localStorage := [STORAGE_KEY \<mapsto> ''light'']\<rparr>)"

section \<open>Facts about the model\<close>

subsection \<open>Constants and class lists\<close>

lemma themes_distinct:
  "LIGHT \<noteq> DARK" "LIGHT \<noteq> AUTO" "DARK \<noteq> AUTO" "DARK \<noteq> LIGHT" "AUTO \<noteq> LIGHT" "AUTO \<noteq> DARK"
  by (simp_all add: LIGHT_def DARK_def AUTO_def)

lemma body_classes_distinct:
  "BODY_CLASS_LIGHT \<noteq> BODY_CLASS_DARK" "BODY_CLASS_DARK \<noteq> BODY_CLASS_LIGHT"
  by (simp_all add: BODY_CLASS_LIGHT_def BODY_CLASS_DARK_def)

lemma body_class_not_icon_class:
  "BODY_CLASS_LIGHT \<notin> set ICON_CLASSES" "BODY_CLASS_DARK \<notin> set ICON_CLASSES"
  "''fa-adjust'' \<noteq> BODY_CLASS_LIGHT" "''fa-adjust'' \<noteq> BODY_CLASS_DARK"
  "''fa-sun'' \<noteq> BODY_CLASS_LIGHT" "''fa-sun'' \<noteq> BODY_CLASS_DARK"
  "''fa-moon'' \<noteq> BODY_CLASS_LIGHT" "''fa-moon'' \<noteq> BODY_CLASS_DARK"
  by (simp_all add: BODY_CLASS_LIGHT_def BODY_CLASS_DARK_def ICON_CLASSES_def)

lemma tooltip_of_themes:
  "tooltip_of AUTO = Some ''Switch to light mode''"
  "tooltip_of LIGHT = Some ''Switch to dark mode''"
  "tooltip_of DARK = Some ''Switch to auto mode''"
  by (simp_all add: tooltip_of_def themes_distinct)

lemma filter_remove_add:
  assumes "P t" and "\<And>c. P c \<Longrightarrow> c \<in> set ts"
  shows "filter P (classList_add t (classList_remove ts cs)) = [t]"
proof -
  have "filter P (classList_remove ts cs) = []"
    using assms(2) by (auto simp: classList_remove_def filter_empty_conv)
  moreover have "t \<notin> set (classList_remove ts cs)"
    using assms by (simp add: classList_remove_def)
  ultimately show ?thesis using assms(1) by (simp add: classList_add_def)
qed

lemma filter_remove_add_other:
  assumes "\<not> P t" and "\<And>c. c \<in> set ts \<Longrightarrow> \<not> P c"
  shows "filter P (classList_add t (classList_remove ts cs)) = filter P cs"
proof -
  have "filter P (classList_remove ts cs) = filter P cs"
    using assms(2) by (auto simp: classList_remove_def intro: filter_cong)
  then show ?thesis using assms(1) by (simp add: classList_add_def)
qed

lemma icon_step_keeps_body_classes:
  assumes "t = ''fa-adjust'' \<or> t = ''fa-sun'' \<or> t = ''fa-moon''"
  shows "filter (\<lambda>c. c = BODY_CLASS_LIGHT \<or> c = BODY_CLASS_DARK)
           (classList_add t (classList_remove ICON_CLASSES cs)) =
         filter (\<lambda>c. c = BODY_CLASS_LIGHT \<or> c = BODY_CLASS_DARK) cs"
  using assms by (intro filter_remove_add_other) (auto simp: body_class_not_icon_class)

lemma body_step_sets_body_class:
  assumes "t = BODY_CLASS_LIGHT \<or> t = BODY_CLASS_DARK"
  shows "filter (\<lambda>c. c = BODY_CLASS_LIGHT \<or> c = BODY_CLASS_DARK)
           (classList_add t (classList_remove [BODY_CLASS_LIGHT, BODY_CLASS_DARK] cs)) = [t]"
  using assms by (intro filter_remove_add) auto

lemma body_step_keeps_icon_classes:
  assumes "t = BODY_CLASS_LIGHT \<or> t = BODY_CLASS_DARK"
  shows "filter (\<lambda>c. c \<in> set ICON_CLASSES)
           (classList_add t (classList_remove [BODY_CLASS_LIGHT, BODY_CLASS_DARK] cs)) =
         filter (\<lambda>c. c \<in> set ICON_CLASSES) cs"
  using assms by (intro filter_remove_add_other) (auto simp: body_class_not_icon_class)

lemma icon_step_sets_icon_class:
  assumes "t = ''fa-adjust'' \<or> t = ''fa-sun'' \<or> t = ''fa-moon''"
  shows "filter (\<lambda>c. c \<in> set ICON_CLASSES) (classList_add t (classList_remove ICON_CLASSES cs)) = [t]"
  using assms by (intro filter_remove_add) (auto simp: ICON_CLASSES_def)

subsection \<open>Results and the fields a browser operation leaves alone\<close>

lemma world_of_simps:
  "world_of (Inr w) = w" "world_of (Inl (e, w)) = w"
  by (simp_all add: world_of_def)

lemma update_classList_fields:
  "themeSwitcher (update_classList n f w) = themeSwitcher w"
  "themeIcon (update_classList n f w) = themeIcon w"
  "currentTheme (update_classList n f w) = currentTheme w"
  "systemPrefersDark (update_classList n f w) = systemPrefersDark w"
  "document_body (update_classList n f w) = document_body w"
  "listeners (update_classList n f w) = listeners w"
  "localStorage (update_classList n f w) = localStorage w"
  "console (update_classList n f w) = console w"
  "storage_getItem_throws (update_classList n f w) = storage_getItem_throws w"
  "storage_setItem_throws (update_classList n f w) = storage_setItem_throws w"
  "classList (elements (update_classList n f w) m) =
     (if m = n then f (classList (elements w m)) else classList (elements w m))"
  "attributes (elements (update_classList n f w) m) = attributes (elements w m)"
  by (simp_all add: update_classList_def)

lemma setAttribute_fields:
  "themeSwitcher (setAttribute n a v w) = themeSwitcher w"
  "themeIcon (setAttribute n a v w) = themeIcon w"
  "currentTheme (setAttribute n a v w) = currentTheme w"
  "systemPrefersDark (setAttribute n a v w) = systemPrefersDark w"
  "document_body (setAttribute n a v w) = document_body w"
  "listeners (setAttribute n a v w) = listeners w"
  "localStorage (setAttribute n a v w) = localStorage w"
  "console (setAttribute n a v w) = console w"
  "storage_getItem_throws (setAttribute n a v w) = storage_getItem_throws w"
  "storage_setItem_throws (setAttribute n a v w) = storage_setItem_throws w"
  "classList (elements (setAttribute n a v w) m) = classList (elements w m)"
  "attributes (elements (setAttribute n a v w) m) =
     (if m = n then (attributes (elements w m))(a \<mapsto> (case v of None \<Rightarrow> ''undefined'' | Some s \<Rightarrow> s))
      else attributes (elements w m))"
  by (simp_all add: setAttribute_def)

lemma update_classList_twice:
  "update_classList n g (update_classList n f w) = update_classList n (\<lambda>cs. g (f cs)) w"
  by (simp add: update_classList_def)

lemma effectiveTheme_of_update_classList:
  "effectiveTheme_of (update_classList n f w) = effectiveTheme_of w"
  by (simp add: effectiveTheme_of_def update_classList_fields)

lemma addEventListener_currentTheme:
  "currentTheme (addEventListener t ev h w) = currentTheme w"
  by (simp add: addEventListener_def)

lemma addEventListener_fields:
  "themeSwitcher (addEventListener t ev h w) = themeSwitcher w"
  "themeIcon (addEventListener t ev h w) = themeIcon w"
  "systemPrefersDark (addEventListener t ev h w) = systemPrefersDark w"
  "document_body (addEventListener t ev h w) = document_body w"
  "elements (addEventListener t ev h w) = elements w"
  "localStorage (addEventListener t ev h w) = localStorage w"
  "console (addEventListener t ev h w) = console w"
  "storage_getItem_throws (addEventListener t ev h w) = storage_getItem_throws w"
  "storage_setItem_throws (addEventListener t ev h w) = storage_setItem_throws w"
  "(t, ev, h) \<in> set (listeners (addEventListener t ev h w))"
  "set (listeners w) \<subseteq> set (listeners (addEventListener t ev h w))"
  by (auto simp: addEventListener_def)

subsection \<open>The storage\<close>

lemma saveThemePreference_eq:
  "saveThemePreference w =
     Inr (if storage_setItem_throws w
          then console_warn ''Could not save theme preference:'' (Some DOMException) w
          else w\<lparr>localStorage := (localStorage w)(STORAGE_KEY \<mapsto> currentTheme w)\<rparr>)"
  by (simp add: saveThemePreference_def try_catch_def localStorage_setItem_def)

lemma loadThemePreference_eq:
  "loadThemePreference w =
     Inr (if storage_getItem_throws w
          then console_warn ''Could not load theme preference:'' (Some DOMException) w
          else case localStorage w STORAGE_KEY of
                 None \<Rightarrow> w
               | Some s \<Rightarrow> if s \<in> set THEMES_values then w\<lparr>currentTheme := s\<rparr> else w)"
  by (auto simp: loadThemePreference_def try_catch_def localStorage_getItem_def THEMES_values_def
       LIGHT_def DARK_def AUTO_def split: option.splits)

lemma loadThemePreference_mode:
  assumes "loadThemePreference w = Inr w'"
  shows "currentTheme w' = currentTheme w \<or> currentTheme w' \<in> set THEMES_values"
  using assms by (auto simp: loadThemePreference_eq console_warn_def split: option.splits if_splits)

lemma loadThemePreference_total: "\<exists>w'. loadThemePreference w = Inr w'"
  by (simp add: loadThemePreference_eq)

subsection \<open>\<open>applyTheme\<close>\<close>

lemma updateThemeIcon_eq:
  "updateThemeIcon eff w =
     Inr (case themeIcon w of
            None \<Rightarrow> w
          | Some icon \<Rightarrow>
              update_classList icon
                (\<lambda>cs. classList_add
                        (if currentTheme w = AUTO then ''fa-adjust''
                         else if eff = DARK then ''fa-sun'' else ''fa-moon'')
                        (classList_remove ICON_CLASSES cs)) w)"
  by (simp add: updateThemeIcon_def update_classList_def Let_def split: option.splits)

lemma updateThemeTooltip_eq:
  "updateThemeTooltip w =
     Inr (case themeSwitcher w of
            None \<Rightarrow> w
          | Some sw \<Rightarrow>
              setAttribute sw ''aria-label'' (tooltip_of (currentTheme w))
                (setAttribute sw ''title'' (tooltip_of (currentTheme w)) w))"
  by (simp add: updateThemeTooltip_def Let_def split: option.splits)

lemma updateThemeIcon_icon_class:
  assumes "themeIcon w = Some icon"
  shows "\<exists>w'. updateThemeIcon eff w = Inr w' \<and>
           filter (\<lambda>c. c \<in> set ICON_CLASSES) (classList (elements w' icon)) =
             [if currentTheme w = AUTO then ''fa-adjust''
              else if eff = DARK then ''fa-sun'' else ''fa-moon'']"
  using assms
  by (simp add: updateThemeIcon_eq update_classList_fields icon_step_sets_icon_class)

lemma updateThemeTooltip_attributes:
  assumes "themeSwitcher w = Some sw"
  shows "\<exists>w'. updateThemeTooltip w = Inr w' \<and>
           attributes (elements w' sw) ''title'' =
             Some (case tooltip_of (currentTheme w) of None \<Rightarrow> ''undefined'' | Some s \<Rightarrow> s) \<and>
           attributes (elements w' sw) ''aria-label'' = attributes (elements w' sw) ''title''"
  using assms by (simp add: updateThemeTooltip_eq setAttribute_fields)

lemma applyTheme_eq:
  assumes "document_body w = Some b"
  shows "applyTheme w =
     Inr (let w2 = update_classList b
                     (\<lambda>cs. classList_add
                             (if effectiveTheme_of w = DARK then BODY_CLASS_DARK else BODY_CLASS_LIGHT)
                             (classList_remove [BODY_CLASS_LIGHT, BODY_CLASS_DARK] cs)) w;
              w3 = (case themeIcon w of
                      None \<Rightarrow> w2
                    | Some icon \<Rightarrow>
                        update_classList icon
                          (\<lambda>cs. classList_add
                                  (if currentTheme w = AUTO then ''fa-adjust''
                                   else if effectiveTheme_of w = DARK then ''fa-sun'' else ''fa-moon'')
                                  (classList_remove ICON_CLASSES cs)) w2)
          in case themeSwitcher w of
               None \<Rightarrow> w3
             | Some sw \<Rightarrow>
                 setAttribute sw ''aria-label'' (tooltip_of (currentTheme w))
                   (setAttribute sw ''title'' (tooltip_of (currentTheme w)) w3))"
  using assms
  by (simp add: applyTheme_def seq_def Let_def updateThemeIcon_eq updateThemeTooltip_eq
      update_classList_twice update_classList_fields effectiveTheme_of_update_classList
      split: option.splits)

lemma applyTheme_total:
  assumes "document_body w = Some b"
  shows "\<exists>w'. applyTheme w = Inr w'"
  using applyTheme_eq [OF assms] by simp

lemma applyTheme_throws:
  assumes "applyTheme w = Inl x"
  shows "x = (TypeError, w) \<and> document_body w = None"
proof (cases "document_body w")
  case None
  with assms show ?thesis by (simp add: applyTheme_def)
next
  case (Some b)
  with assms applyTheme_total [of w b] show ?thesis by auto
qed

lemma applyTheme_frame:
  assumes "applyTheme w = Inr w'"
  shows "themeSwitcher w' = themeSwitcher w" "themeIcon w' = themeIcon w"
    "currentTheme w' = currentTheme w" "systemPrefersDark w' = systemPrefersDark w"
    "document_body w' = document_body w" "listeners w' = listeners w"
    "localStorage w' = localStorage w" "console w' = console w"
    "storage_getItem_throws w' = storage_getItem_throws w"
    "storage_setItem_throws w' = storage_setItem_throws w"
proof -
  obtain b where b: "document_body w = Some b"
    using assms by (cases "document_body w") (simp_all add: applyTheme_def)
  from applyTheme_eq [OF b] assms
  show "themeSwitcher w' = themeSwitcher w" "themeIcon w' = themeIcon w"
    "currentTheme w' = currentTheme w" "systemPrefersDark w' = systemPrefersDark w"
    "document_body w' = document_body w" "listeners w' = listeners w"
    "localStorage w' = localStorage w" "console w' = console w"
    "storage_getItem_throws w' = storage_getItem_throws w"
    "storage_setItem_throws w' = storage_setItem_throws w"
    by (auto simp: Let_def update_classList_fields setAttribute_fields split: option.splits)
qed

lemma applyTheme_body_class:
  assumes "document_body w = Some b" and "applyTheme w = Inr w'"
  shows "filter (\<lambda>c. c \<in> set [BODY_CLASS_LIGHT, BODY_CLASS_DARK]) (classList (elements w' b)) =
           [if effectiveTheme_of w = DARK then BODY_CLASS_DARK else BODY_CLASS_LIGHT]"
  using applyTheme_eq [OF assms(1)] assms(2)
  by (auto simp: Let_def update_classList_fields setAttribute_fields
      icon_step_keeps_body_classes body_step_sets_body_class split: option.splits)

lemma applyTheme_icon_class:
  assumes "document_body w = Some b" and "themeIcon w = Some icon" and "applyTheme w = Inr w'"
  shows "filter (\<lambda>c. c \<in> set ICON_CLASSES) (classList (elements w' icon)) =
           [if currentTheme w = AUTO then ''fa-adjust''
            else if effectiveTheme_of w = DARK then ''fa-sun'' else ''fa-moon'']"
  using applyTheme_eq [OF assms(1)] assms(2,3)
  by (auto simp: Let_def update_classList_fields setAttribute_fields
      icon_step_sets_icon_class split: option.splits)

lemma applyTheme_tooltip:
  assumes "document_body w = Some b" and "themeSwitcher w = Some sw" and "applyTheme w = Inr w'"
  shows "attributes (elements w' sw) ''title'' =
           Some (case tooltip_of (currentTheme w) of None \<Rightarrow> ''undefined'' | Some s \<Rightarrow> s)"
    and "attributes (elements w' sw) ''aria-label'' =
           Some (case tooltip_of (currentTheme w) of None \<Rightarrow> ''undefined'' | Some s \<Rightarrow> s)"
  using applyTheme_eq [OF assms(1)] assms(2,3)
  by (auto simp: Let_def update_classList_fields setAttribute_fields split: option.splits)

lemma applyTheme_applies:
  assumes "applyTheme w = Inr w'"
  shows "theme_applied w'"
proof -
  obtain b where b: "document_body w = Some b"
    using assms by (cases "document_body w") (simp_all add: applyTheme_def)
  note fr = applyTheme_frame [OF assms]
  have eff: "effectiveTheme_of w' = effectiveTheme_of w"
    using fr by (simp add: effectiveTheme_of_def)
  have "filter (\<lambda>c. c \<in> set [BODY_CLASS_LIGHT, BODY_CLASS_DARK]) (classList (elements w' b)) =
          [if effectiveTheme_of w' = DARK then BODY_CLASS_DARK else BODY_CLASS_LIGHT]"
    using applyTheme_body_class [OF b assms] eff by simp
  moreover have "filter (\<lambda>c. c \<in> set ICON_CLASSES) (classList (elements w' icon)) =
            [if currentTheme w' = AUTO then ''fa-adjust''
             else if effectiveTheme_of w' = DARK then ''fa-sun'' else ''fa-moon'']"
    if "themeIcon w' = Some icon" for icon
    using applyTheme_icon_class [OF b _ assms, of icon] that eff fr by simp
  moreover have "attributes (elements w' sw) ''title'' =
            Some (case tooltip_of (currentTheme w') of None \<Rightarrow> ''undefined'' | Some s \<Rightarrow> s) \<and>
          attributes (elements w' sw) ''aria-label'' = attributes (elements w' sw) ''title''"
    if "themeSwitcher w' = Some sw" for sw
    using applyTheme_tooltip [OF b _ assms, of sw] that fr by simp
  ultimately show ?thesis
    using b fr by (simp add: theme_applied_def split: option.splits)
qed

lemma applyTheme_world_of:
  obtains "world_of (applyTheme w) = w" | w' where "applyTheme w = Inr w'" "world_of (applyTheme w) = w'"
proof (cases "applyTheme w")
  case (Inl x)
  then show ?thesis using applyTheme_throws [OF Inl] that(1) by (simp add: world_of_def)
next
  case (Inr w')
  then show ?thesis using that(2) by (simp add: world_of_def)
qed

lemma applyTheme_world_of_frame:
  "currentTheme (world_of (applyTheme w)) = currentTheme w"
  "systemPrefersDark (world_of (applyTheme w)) = systemPrefersDark w"
  "document_body (world_of (applyTheme w)) = document_body w"
  "themeSwitcher (world_of (applyTheme w)) = themeSwitcher w"
  "themeIcon (world_of (applyTheme w)) = themeIcon w"
  "listeners (world_of (applyTheme w)) = listeners w"
  "storage_getItem_throws (world_of (applyTheme w)) = storage_getItem_throws w"
  "storage_setItem_throws (world_of (applyTheme w)) = storage_setItem_throws w"
proof -
  have "currentTheme (world_of (applyTheme w)) = currentTheme w \<and>
    systemPrefersDark (world_of (applyTheme w)) = systemPrefersDark w \<and>
    document_body (world_of (applyTheme w)) = document_body w \<and>
    themeSwitcher (world_of (applyTheme w)) = themeSwitcher w \<and>
    themeIcon (world_of (applyTheme w)) = themeIcon w \<and>
    listeners (world_of (applyTheme w)) = listeners w \<and>
    storage_getItem_throws (world_of (applyTheme w)) = storage_getItem_throws w \<and>
    storage_setItem_throws (world_of (applyTheme w)) = storage_setItem_throws w"
  proof (rule applyTheme_world_of [of w])
    assume "world_of (applyTheme w) = w"
    then show ?thesis by simp
  next
    fix w'
    assume "applyTheme w = Inr w'" and "world_of (applyTheme w) = w'"
    then show ?thesis using applyTheme_frame [of w w'] by simp
  qed
  then show "currentTheme (world_of (applyTheme w)) = currentTheme w"
  "systemPrefersDark (world_of (applyTheme w)) = systemPrefersDark w"
  "document_body (world_of (applyTheme w)) = document_body w"
  "themeSwitcher (world_of (applyTheme w)) = themeSwitcher w"
  "themeIcon (world_of (applyTheme w)) = themeIcon w"
  "listeners (world_of (applyTheme w)) = listeners w"
  "storage_getItem_throws (world_of (applyTheme w)) = storage_getItem_throws w"
  "storage_setItem_throws (world_of (applyTheme w)) = storage_setItem_throws w"
    by simp_all
qed

lemma theme_applied_addEventListener:
  "theme_applied (addEventListener t ev h w) = theme_applied w"
  by (simp add: theme_applied_def effectiveTheme_of_def addEventListener_fields
      addEventListener_currentTheme cong: option.case_cong)

subsection \<open>\<open>toggleTheme\<close>\<close>

lemma toggleTheme_switch_fields:
  "themeSwitcher (toggleTheme_switch w) = themeSwitcher w"
  "themeIcon (toggleTheme_switch w) = themeIcon w"
  "systemPrefersDark (toggleTheme_switch w) = systemPrefersDark w"
  "document_body (toggleTheme_switch w) = document_body w"
  "elements (toggleTheme_switch w) = elements w"
  "listeners (toggleTheme_switch w) = listeners w"
  "localStorage (toggleTheme_switch w) = localStorage w"
  "console (toggleTheme_switch w) = console w"
  "storage_getItem_throws (toggleTheme_switch w) = storage_getItem_throws w"
  "storage_setItem_throws (toggleTheme_switch w) = storage_setItem_throws w"
  by (simp_all add: toggleTheme_switch_def)

lemma toggleTheme_switch_mode:
  "currentTheme (toggleTheme_switch w) =
     (if currentTheme w = AUTO then (if systemPrefersDark w then LIGHT else DARK)
      else if currentTheme w = LIGHT then DARK
      else if currentTheme w = DARK then AUTO
      else currentTheme w)"
  by (simp add: toggleTheme_switch_def)

lemma toggleTheme_switch_valid:
  assumes "currentTheme w \<in> set THEMES_values"
  shows "currentTheme (toggleTheme_switch w) \<in> set THEMES_values"
  using assms by (auto simp: toggleTheme_switch_mode THEMES_values_def)

lemma toggleTheme_eq:
  "toggleTheme w =
     applyTheme
       (if storage_setItem_throws w
        then console_warn ''Could not save theme preference:'' (Some DOMException) (toggleTheme_switch w)
        else (toggleTheme_switch w)
               \<lparr>localStorage := (localStorage w)(STORAGE_KEY \<mapsto> currentTheme (toggleTheme_switch w))\<rparr>)"
  by (simp add: toggleTheme_def seq_def saveThemePreference_eq toggleTheme_switch_fields)

lemma toggleTheme_total:
  assumes "document_body w = Some b"
  shows "\<exists>w'. toggleTheme w = Inr w'"
  unfolding toggleTheme_eq
  by (rule applyTheme_total [where b = b])
     (simp add: assms toggleTheme_switch_fields console_warn_def)

lemma toggleTheme_frame:
  "currentTheme (world_of (toggleTheme w)) = currentTheme (toggleTheme_switch w)"
  "systemPrefersDark (world_of (toggleTheme w)) = systemPrefersDark w"
  "document_body (world_of (toggleTheme w)) = document_body w"
  "themeSwitcher (world_of (toggleTheme w)) = themeSwitcher w"
  "themeIcon (world_of (toggleTheme w)) = themeIcon w"
  "listeners (world_of (toggleTheme w)) = listeners w"
  "storage_getItem_throws (world_of (toggleTheme w)) = storage_getItem_throws w"
  "storage_setItem_throws (world_of (toggleTheme w)) = storage_setItem_throws w"
  unfolding toggleTheme_eq
  by (simp_all add: applyTheme_world_of_frame toggleTheme_switch_fields console_warn_def)

lemma toggleTheme_without_body:
  assumes "document_body w = None"
  shows "\<exists>w'. toggleTheme w = Inl (TypeError, w') \<and>
           currentTheme w' = currentTheme (toggleTheme_switch w)"
  using assms
  by (simp add: toggleTheme_eq applyTheme_def toggleTheme_switch_fields console_warn_def)

lemma toggleTheme_icon_missing:
  assumes "themeSwitcher w = Some sw" and "themeIcon w = None" and "document_body w = Some b"
  shows "\<exists>w'. toggleTheme w = Inr w' \<and>
           attributes (elements w' sw) ''title'' =
             Some (case tooltip_of (currentTheme w') of None \<Rightarrow> ''undefined'' | Some s \<Rightarrow> s)"
proof -
  obtain w' where w': "toggleTheme w = Inr w'"
    using toggleTheme_total [OF assms(3)] by blast
  then have "world_of (toggleTheme w) = w'"
    by (simp add: world_of_simps)
  then have sw: "themeSwitcher w' = Some sw"
    using toggleTheme_frame(4) [of w] assms(1) by simp
  have "theme_applied w'"
    using w' applyTheme_applies [of _ w'] by (simp add: toggleTheme_eq)
  with sw w' show ?thesis
    by (simp add: theme_applied_def)
qed

lemma toggles_systemPrefersDark:
  "systemPrefersDark (toggles n w) = systemPrefersDark w"
  by (induction n arbitrary: w) (simp_all add: toggleTheme_frame)

lemma toggles_document_body:
  "document_body (toggles n w) = document_body w"
  by (induction n arbitrary: w) (simp_all add: toggleTheme_frame)

lemma toggles_add: "toggles (m + n) w = toggles n (toggles m w)"
  by (induction m arbitrary: w) simp_all

lemma toggles_mode_cong:
  assumes "currentTheme w1 = currentTheme w2" and "systemPrefersDark w1 = systemPrefersDark w2"
  shows "currentTheme (toggles n w1) = currentTheme (toggles n w2)"
  using assms
proof (induction n arbitrary: w1 w2)
  case 0
  then show ?case by simp
next
  case (Suc n)
  have mode: "currentTheme (world_of (toggleTheme w1)) = currentTheme (world_of (toggleTheme w2))"
    using Suc.prems by (simp add: toggleTheme_frame toggleTheme_switch_mode)
  have pref: "systemPrefersDark (world_of (toggleTheme w1)) =
      systemPrefersDark (world_of (toggleTheme w2))"
    using Suc.prems by (simp add: toggleTheme_frame)
  show ?case
    unfolding toggles.simps by (rule Suc.IH [OF mode pref])
qed

lemma toggles_modes:
  "currentTheme (toggles 1 w) = currentTheme (toggleTheme_switch w)"
  "currentTheme (toggles 2 w) = currentTheme (toggleTheme_switch (toggleTheme_switch w))"
  "currentTheme (toggles 3 w) =
     currentTheme (toggleTheme_switch (toggleTheme_switch (toggleTheme_switch w)))"
  by (simp_all add: eval_nat_numeral toggleTheme_frame toggleTheme_switch_mode
      toggleTheme_switch_fields)

subsection \<open>The system preference\<close>

lemma handleSystemThemeChange_frame:
  "currentTheme (world_of (handleSystemThemeChange m w)) = currentTheme w"
  "systemPrefersDark (world_of (handleSystemThemeChange m w)) = m"
  "themeSwitcher (world_of (handleSystemThemeChange m w)) = themeSwitcher w"
  "themeIcon (world_of (handleSystemThemeChange m w)) = themeIcon w"
  "document_body (world_of (handleSystemThemeChange m w)) = document_body w"
  "listeners (world_of (handleSystemThemeChange m w)) = listeners w"
  by (simp_all add: handleSystemThemeChange_def Let_def applyTheme_world_of_frame world_of_simps)

subsection \<open>\<open>init\<close>\<close>

lemma init_deferred:
  assumes "readyState w = ''loading''"
  shows "init w = Inr (addEventListener Document ''DOMContentLoaded'' H_init w)"
  using assms by (simp add: init_def)

lemma init_aborted:
  assumes "readyState w \<noteq> ''loading''"
    and "getElementById w ''theme-switcher'' = None \<or>
         (\<exists>sw. getElementById w ''theme-switcher'' = Some sw \<and> querySelector w sw ''.theme-icon'' = None)"
  shows "init w =
     Inr (console_warn ''Theme switcher elements not found'' None
            (w\<lparr>themeSwitcher := getElementById w ''theme-switcher'', themeIcon := None\<rparr>))"
  using assms by (auto simp: init_def Let_def)

lemma init_found:
  assumes "readyState w \<noteq> ''loading''"
    and "getElementById w ''theme-switcher'' = Some sw"
    and "querySelector w sw ''.theme-icon'' = Some icon"
  shows "init w =
     (case seq loadThemePreference applyTheme
             (case matchMedia w of
                None \<Rightarrow> w\<lparr>themeSwitcher := Some sw, themeIcon := Some icon\<rparr>
              | Some m \<Rightarrow>
                  addEventListener DarkMediaQuery ''change'' H_handleSystemThemeChange
                    (w\<lparr>themeSwitcher := Some sw, themeIcon := Some icon, systemPrefersDark := m\<rparr>)) of
        Inl x \<Rightarrow> Inl x
      | Inr w4 \<Rightarrow>
          Inr (addEventListener (Node sw) ''keydown'' H_handleKeyDown
                (addEventListener (Node sw) ''click'' H_handleThemeToggle w4)))"
  using assms by (simp add: init_def Let_def split: option.splits)

lemma init_mode:
  "currentTheme (world_of (init w)) = currentTheme w \<or>
   currentTheme (world_of (init w)) \<in> set THEMES_values"
proof -
  consider (deferred) "readyState w = ''loading''"
    | (aborted) "readyState w \<noteq> ''loading''"
        "getElementById w ''theme-switcher'' = None \<or>
         (\<exists>sw. getElementById w ''theme-switcher'' = Some sw \<and> querySelector w sw ''.theme-icon'' = None)"
    | (found) sw icon where "readyState w \<noteq> ''loading''"
        "getElementById w ''theme-switcher'' = Some sw" "querySelector w sw ''.theme-icon'' = Some icon"
    by (cases "getElementById w ''theme-switcher''") auto
  then show ?thesis
  proof cases
    case deferred
    then show ?thesis
      by (simp add: init_deferred world_of_def addEventListener_currentTheme)
  next
    case aborted
    then show ?thesis
      by (simp add: init_aborted world_of_def console_warn_def)
  next
    case found
    define w3 where "w3 = (case matchMedia w of
                None \<Rightarrow> w\<lparr>themeSwitcher := Some sw, themeIcon := Some icon\<rparr>
              | Some m \<Rightarrow>
                  addEventListener DarkMediaQuery ''change'' H_handleSystemThemeChange
                    (w\<lparr>themeSwitcher := Some sw, themeIcon := Some icon, systemPrefersDark := m\<rparr>))"
    have w3: "currentTheme w3 = currentTheme w"
      by (simp add: w3_def addEventListener_currentTheme split: option.splits)
    obtain wl where wl: "loadThemePreference w3 = Inr wl"
      using loadThemePreference_total by blast
    have mode: "currentTheme wl = currentTheme w \<or> currentTheme wl \<in> set THEMES_values"
      using loadThemePreference_mode [OF wl] w3 by simp
    have init: "init w = (case applyTheme wl of Inl x \<Rightarrow> Inl x
      | Inr w4 \<Rightarrow>
          Inr (addEventListener (Node sw) ''keydown'' H_handleKeyDown
                (addEventListener (Node sw) ''click'' H_handleThemeToggle w4)))"
      unfolding init_found [OF found] w3_def [symmetric] by (simp add: seq_def wl)
    have "currentTheme (world_of (init w)) = currentTheme wl"
    proof (cases "applyTheme wl")
      case (Inl x)
      then show ?thesis
        using applyTheme_throws [OF Inl] by (simp add: init world_of_def)
    next
      case (Inr w4)
      then show ?thesis
        using applyTheme_frame(3) [OF Inr]
        by (simp add: init world_of_def addEventListener_currentTheme)
    qed
    with mode show ?thesis by simp
  qed
qed

lemma init_found_total:
  assumes "readyState w \<noteq> ''loading''"
    and "getElementById w ''theme-switcher'' = Some sw"
    and "querySelector w sw ''.theme-icon'' = Some icon"
    and "document_body w = Some b"
  shows "\<exists>w'. init w = Inr w' \<and> theme_applied w' \<and>
           (Node sw, ''click'', H_handleThemeToggle) \<in> set (listeners w') \<and>
           (Node sw, ''keydown'', H_handleKeyDown) \<in> set (listeners w') \<and>
           (storage_getItem_throws w \<longrightarrow>
              currentTheme w' = currentTheme w \<and>
              console w' = console w @ [(''Could not load theme preference:'', Some DOMException)])"
proof -
  define w3 where "w3 = (case matchMedia w of
                None \<Rightarrow> w\<lparr>themeSwitcher := Some sw, themeIcon := Some icon\<rparr>
              | Some m \<Rightarrow>
                  addEventListener DarkMediaQuery ''change'' H_handleSystemThemeChange
                    (w\<lparr>themeSwitcher := Some sw, themeIcon := Some icon, systemPrefersDark := m\<rparr>))"
  have w3: "document_body w3 = Some b" "currentTheme w3 = currentTheme w" "console w3 = console w"
    "storage_getItem_throws w3 = storage_getItem_throws w"
    using assms(4)
    by (simp_all add: w3_def addEventListener_fields addEventListener_currentTheme split: option.splits)
  obtain wl where wl: "loadThemePreference w3 = Inr wl"
    using loadThemePreference_total by blast
  have wl_body: "document_body wl = Some b"
    using wl w3(1) by (auto simp: loadThemePreference_eq console_warn_def split: option.splits if_splits)
  have wl_failed: "currentTheme wl = currentTheme w \<and>
      console wl = console w @ [(''Could not load theme preference:'', Some DOMException)]"
    if "storage_getItem_throws w"
    using wl that w3 by (auto simp: loadThemePreference_eq console_warn_def)
  obtain w4 where w4: "applyTheme wl = Inr w4"
    using applyTheme_total [OF wl_body] by blast
  define w' where "w' = addEventListener (Node sw) ''keydown'' H_handleKeyDown
                (addEventListener (Node sw) ''click'' H_handleThemeToggle w4)"
  have init: "init w = Inr w'"
    unfolding init_found [OF assms(1,2,3)] w3_def [symmetric]
    by (simp add: seq_def wl w4 w'_def)
  have "theme_applied w'"
    using applyTheme_applies [OF w4] by (simp add: w'_def theme_applied_addEventListener)
  moreover have "(Node sw, ''click'', H_handleThemeToggle) \<in> set (listeners w')"
    unfolding w'_def using addEventListener_fields(10,11) by blast
  moreover have "(Node sw, ''keydown'', H_handleKeyDown) \<in> set (listeners w')"
    unfolding w'_def by (rule addEventListener_fields(10))
  moreover have "currentTheme w' = currentTheme w \<and>
      console w' = console w @ [(''Could not load theme preference:'', Some DOMException)]"
    if "storage_getItem_throws w"
    using wl_failed [OF that] applyTheme_frame(3,8) [OF w4]
    by (simp add: w'_def addEventListener_fields addEventListener_currentTheme)
  ultimately show ?thesis using init by blast
qed

subsection \<open>Reachable states\<close>

lemma reachable_valid_theme:
  assumes "reachable w"
  shows "currentTheme w \<in> set THEMES_values"
  using assms
proof induction
  case (start w)
  show ?case by (simp add: fresh_module_def THEMES_values_def)
next
  case (by_init w)
  then show ?case using init_mode [of w] by auto
next
  case (by_toggle w)
  then show ?case by (simp add: toggleTheme_frame toggleTheme_switch_valid)
next
  case (by_click w)
  then show ?case
    by (simp add: handleThemeToggle_def toggleTheme_frame toggleTheme_switch_valid)
next
  case (by_key w key)
  then show ?case
    by (simp add: handleKeyDown_def toggleTheme_frame toggleTheme_switch_valid world_of_simps)
next
  case (by_system w m)
  then show ?case by (simp add: handleSystemThemeChange_frame)
qed

subsection \<open>The example pages\<close>

lemma example_page_fields:
  "document_body example_page = Some 0" "themeIcon example_page = Some 2"
  "themeSwitcher example_page = Some 1" "currentTheme example_page = AUTO"
  "systemPrefersDark example_page" "\<not> storage_setItem_throws example_page"
  "\<not> storage_getItem_throws example_page" "readyState example_page = ''complete''"
  by (simp_all add: example_page_def)

lemma example_page_storage:
  "localStorage example_page = Map.empty" "console example_page = []"
  "getElementById example_page ''theme-switcher'' = Some 1"
  "querySelector example_page 1 ''.theme-icon'' = Some 2"
  by (simp_all add: example_page_def)

lemma bare_page_fields:
  "readyState bare_page = ''complete''" "getElementById bare_page ''theme-switcher'' = None"
  "document_body bare_page = Some 0" "themeSwitcher bare_page = None" "themeIcon bare_page = None"
  "currentTheme bare_page = AUTO" "\<not> systemPrefersDark bare_page"
  "localStorage bare_page STORAGE_KEY = Some LIGHT" "matchMedia bare_page = Some True"
  "console bare_page = []" "listeners bare_page = []" "classList (elements bare_page 0) = []"
  "\<not> storage_setItem_throws bare_page" "\<not> storage_getItem_throws bare_page"
  by (simp_all add: bare_page_def example_page_def fresh_module_def LIGHT_def)

section \<open>The claims\<close>

subsection \<open>C1: the transition of \<open>toggleTheme\<close>\<close>

text \<open>
  Claim C1. \<open>toggleTheme\<close> advances \<open>currentTheme\<close> by a fixed transition: from
  AUTO to LIGHT when the system prefers dark and to DARK when it does not, from LIGHT to
  DARK, from DARK to AUTO. It leaves \<open>systemPrefersDark\<close> as it was, stores the new
  value under the storage key (when the write does not throw) and applies the new state
  to the page: body class, icon class and tooltip are those of the new state.
\<close>

theorem toggleTheme_transition:
  assumes "document_body w = Some b"
  shows "\<exists>w'. toggleTheme w = Inr w' \<and>
           (currentTheme w = AUTO \<longrightarrow>
              currentTheme w' = (if systemPrefersDark w then LIGHT else DARK)) \<and>
           (currentTheme w = LIGHT \<longrightarrow> currentTheme w' = DARK) \<and>
           (currentTheme w = DARK \<longrightarrow> currentTheme w' = AUTO) \<and>
           systemPrefersDark w' = systemPrefersDark w \<and>
           (\<not> storage_setItem_throws w \<longrightarrow> localStorage w' STORAGE_KEY = Some (currentTheme w')) \<and>
           theme_applied w'"
proof -
  obtain w' where w': "toggleTheme w = Inr w'"
    using toggleTheme_total [OF assms] by blast
  then have wo: "world_of (toggleTheme w) = w'"
    by (simp add: world_of_def)
  have mode: "currentTheme w' = currentTheme (toggleTheme_switch w)"
    and spd: "systemPrefersDark w' = systemPrefersDark w"
    using toggleTheme_frame(1,2) [of w] wo by simp_all
  have stored: "localStorage w' STORAGE_KEY = Some (currentTheme w')"
    if "\<not> storage_setItem_throws w"
    using w' that applyTheme_frame(7) [of _ w'] mode
    by (simp add: toggleTheme_eq)
  have "theme_applied w'"
    using w' applyTheme_applies [of _ w'] by (simp add: toggleTheme_eq)
  with w' mode spd stored show ?thesis
    by (simp add: toggleTheme_switch_mode themes_distinct)
qed

theorem toggleTheme_transition_witness:
  "document_body example_page = Some 0 \<and> currentTheme example_page = AUTO \<and>
   systemPrefersDark example_page \<and>
   (\<exists>w'. toggleTheme example_page = Inr w' \<and> currentTheme w' = LIGHT \<and>
      systemPrefersDark w' \<and> localStorage w' STORAGE_KEY = Some LIGHT \<and> theme_applied w') \<and>
   (\<exists>w'. toggleTheme (example_page\<lparr>currentTheme := LIGHT\<rparr>) = Inr w' \<and> currentTheme w' = DARK \<and>
      systemPrefersDark w' \<and> localStorage w' STORAGE_KEY = Some DARK \<and> theme_applied w') \<and>
   (\<exists>w'. toggleTheme (example_page\<lparr>currentTheme := DARK\<rparr>) = Inr w' \<and> currentTheme w' = AUTO \<and>
      systemPrefersDark w' \<and> localStorage w' STORAGE_KEY = Some AUTO \<and> theme_applied w')"
  using toggleTheme_transition [of example_page 0]
    toggleTheme_transition [of "example_page\<lparr>currentTheme := LIGHT\<rparr>" 0]
    toggleTheme_transition [of "example_page\<lparr>currentTheme := DARK\<rparr>" 0]
  by (simp add: example_page_fields themes_distinct cong: conj_cong)

subsection \<open>C2: the effective theme is LIGHT or DARK\<close>

text \<open>
  Claim C2. Whenever \<open>currentTheme\<close> is one of LIGHT, DARK, AUTO, for either value of
  \<open>systemPrefersDark\<close>, the effective theme computed by \<open>applyTheme\<close> and the one
  returned in the field \<open>effective\<close> of \<open>getCurrentTheme\<close> are LIGHT or DARK and
  never AUTO; AUTO resolves to DARK when the system prefers dark and to LIGHT otherwise.
  (By \<open>reachable_valid_theme\<close> every state the module reaches has such a
  \<open>currentTheme\<close>.)
\<close>

theorem effectiveTheme_never_AUTO:
  assumes "currentTheme w \<in> set THEMES_values"
  shows "effectiveTheme_of w \<in> {LIGHT, DARK} \<and> effectiveTheme_of w \<noteq> AUTO \<and>
         effective (getCurrentTheme w) \<in> {LIGHT, DARK} \<and> effective (getCurrentTheme w) \<noteq> AUTO \<and>
         (currentTheme w = AUTO \<longrightarrow>
            effectiveTheme_of w = (if systemPrefersDark w then DARK else LIGHT) \<and>
            effective (getCurrentTheme w) = (if systemPrefersDark w then DARK else LIGHT))"
  using assms
  by (auto simp: effectiveTheme_of_def getCurrentTheme_def THEMES_values_def themes_distinct)

theorem effectiveTheme_never_AUTO_witness:
  "currentTheme example_page \<in> set THEMES_values \<and> currentTheme example_page = AUTO \<and>
   systemPrefersDark example_page \<and>
   effectiveTheme_of example_page = DARK \<and> effective (getCurrentTheme example_page) = DARK \<and>
   effectiveTheme_of (example_page\<lparr>systemPrefersDark := False\<rparr>) = LIGHT \<and>
   effective (getCurrentTheme (example_page\<lparr>systemPrefersDark := False\<rparr>)) = LIGHT \<and>
   effectiveTheme_of (example_page\<lparr>currentTheme := LIGHT\<rparr>) \<noteq> AUTO \<and>
   effective (getCurrentTheme (example_page\<lparr>currentTheme := DARK\<rparr>)) \<noteq> AUTO"
  using effectiveTheme_never_AUTO [of example_page]
    effectiveTheme_never_AUTO [of "example_page\<lparr>systemPrefersDark := False\<rparr>"]
    effectiveTheme_never_AUTO [of "example_page\<lparr>currentTheme := LIGHT\<rparr>"]
    effectiveTheme_never_AUTO [of "example_page\<lparr>currentTheme := DARK\<rparr>"]
  by (simp add: example_page_fields THEMES_values_def)

subsection \<open>C3: the cycle of repeated toggles\<close>

text \<open>
  Claim C3, as amended. Starting from \<open>currentTheme = AUTO\<close> with a fixed system
  preference: when the system prefers dark, the modes after one, two and three calls of
  \<open>toggleTheme\<close> are LIGHT, DARK, AUTO, and the sequence of modes has period 3; when
  the system does not prefer dark, they are DARK, AUTO, DARK: the second call is already
  back at AUTO, LIGHT is never visited, and the sequence has period 2.
\<close>

theorem toggles_cycle:
  assumes "currentTheme w = AUTO"
  shows "(systemPrefersDark w \<longrightarrow>
            currentTheme (toggles 1 w) = LIGHT \<and> currentTheme (toggles 2 w) = DARK \<and>
            currentTheme (toggles 3 w) = AUTO \<and>
            (\<forall>n. currentTheme (toggles (3 + n) w) = currentTheme (toggles n w))) \<and>
         (\<not> systemPrefersDark w \<longrightarrow>
            currentTheme (toggles 1 w) = DARK \<and> currentTheme (toggles 2 w) = AUTO \<and>
            currentTheme (toggles 3 w) = DARK \<and>
            (\<forall>n. currentTheme (toggles (2 + n) w) = currentTheme (toggles n w)))"
proof (cases "systemPrefersDark w")
  case True
  have m: "currentTheme (toggles 1 w) = LIGHT" "currentTheme (toggles 2 w) = DARK"
    "currentTheme (toggles 3 w) = AUTO"
    unfolding toggles_modes using assms True
    by (simp_all add: toggleTheme_switch_mode toggleTheme_switch_fields themes_distinct)
  have "currentTheme (toggles (3 + n) w) = currentTheme (toggles n w)" for n
    unfolding toggles_add
    by (rule toggles_mode_cong) (simp_all add: m assms toggles_systemPrefersDark)
  with m True show ?thesis by blast
next
  case False
  have m: "currentTheme (toggles 1 w) = DARK" "currentTheme (toggles 2 w) = AUTO"
    "currentTheme (toggles 3 w) = DARK"
    unfolding toggles_modes using assms False
    by (simp_all add: toggleTheme_switch_mode toggleTheme_switch_fields themes_distinct)
  have "currentTheme (toggles (2 + n) w) = currentTheme (toggles n w)" for n
    unfolding toggles_add
    by (rule toggles_mode_cong) (simp_all add: m assms toggles_systemPrefersDark)
  with m False show ?thesis by blast
qed

theorem toggles_cycle_witness:
  "currentTheme example_page = AUTO \<and> systemPrefersDark example_page \<and>
   currentTheme (toggles 1 example_page) = LIGHT \<and>
   currentTheme (toggles 2 example_page) = DARK \<and>
   currentTheme (toggles 3 example_page) = AUTO \<and>
   currentTheme (toggles (3 + 1) example_page) = currentTheme (toggles 1 example_page) \<and>
   currentTheme (example_page\<lparr>systemPrefersDark := False\<rparr>) = AUTO \<and>
   \<not> systemPrefersDark (example_page\<lparr>systemPrefersDark := False\<rparr>) \<and>
   currentTheme (toggles 1 (example_page\<lparr>systemPrefersDark := False\<rparr>)) = DARK \<and>
   currentTheme (toggles 2 (example_page\<lparr>systemPrefersDark := False\<rparr>)) = AUTO \<and>
   currentTheme (toggles (2 + 1) (example_page\<lparr>systemPrefersDark := False\<rparr>)) =
     currentTheme (toggles 1 (example_page\<lparr>systemPrefersDark := False\<rparr>))"
proof -
  have a: "currentTheme example_page = AUTO" and d: "systemPrefersDark example_page"
    by (simp_all add: example_page_fields)
  have b: "currentTheme (example_page\<lparr>systemPrefersDark := False\<rparr>) = AUTO"
    and l: "\<not> systemPrefersDark (example_page\<lparr>systemPrefersDark := False\<rparr>)"
    by (simp_all add: example_page_fields)
  from toggles_cycle [OF a] d toggles_cycle [OF b] l a b show ?thesis
    by blast
qed

text \<open>
  Claim C3 as written says that three calls from AUTO return to AUTO for every system
  preference. On a page whose system preference is light the third call leaves DARK.
\<close>

theorem three_toggles_counterexample:
  "currentTheme (example_page\<lparr>systemPrefersDark := False\<rparr>) = AUTO \<and>
   \<not> systemPrefersDark (example_page\<lparr>systemPrefersDark := False\<rparr>) \<and>
   currentTheme (toggles 3 (example_page\<lparr>systemPrefersDark := False\<rparr>)) = DARK \<and>
   DARK \<noteq> AUTO"
  unfolding toggles_modes
  by (simp add: toggleTheme_switch_mode toggleTheme_switch_fields
      example_page_fields themes_distinct)

subsection \<open>C4: a change of the system preference\<close>

text \<open>
  Claim C4. The handler of the system preference never changes \<open>currentTheme\<close> (nor
  the two element handles): of the module variables it writes \<open>systemPrefersDark\<close>
  only. It applies the theme again exactly when \<open>currentTheme\<close> is AUTO: then it
  is the call of \<open>applyTheme\<close> on the updated state, and the page shows that state. For
  any other mode, LIGHT and DARK among them, it returns the state with only
  \<open>systemPrefersDark\<close> updated: no element is written, so the body class and the icon
  class stay as they were.
\<close>

theorem handleSystemThemeChange_reapplies_only_on_AUTO:
  "currentTheme (world_of (handleSystemThemeChange m w)) = currentTheme w \<and>
   themeSwitcher (world_of (handleSystemThemeChange m w)) = themeSwitcher w \<and>
   themeIcon (world_of (handleSystemThemeChange m w)) = themeIcon w \<and>
   systemPrefersDark (world_of (handleSystemThemeChange m w)) = m \<and>
   (currentTheme w = AUTO \<longrightarrow>
      handleSystemThemeChange m w = applyTheme (w\<lparr>systemPrefersDark := m\<rparr>)) \<and>
   (currentTheme w = AUTO \<and> document_body w \<noteq> None \<longrightarrow>
      theme_applied (world_of (handleSystemThemeChange m w))) \<and>
   (currentTheme w \<noteq> AUTO \<longrightarrow>
      handleSystemThemeChange m w = Inr (w\<lparr>systemPrefersDark := m\<rparr>) \<and>
      elements (world_of (handleSystemThemeChange m w)) = elements w)"
proof -
  have applied: "theme_applied (world_of (handleSystemThemeChange m w))"
    if auto: "currentTheme w = AUTO" and body: "document_body w \<noteq> None"
  proof -
    obtain b where "document_body (w\<lparr>systemPrefersDark := m\<rparr>) = Some b"
      using body by auto
    then obtain w' where w': "applyTheme (w\<lparr>systemPrefersDark := m\<rparr>) = Inr w'"
      using applyTheme_total by blast
    then have "handleSystemThemeChange m w = Inr w'"
      using auto by (simp add: handleSystemThemeChange_def)
    with applyTheme_applies [OF w'] show ?thesis
      by (simp add: world_of_simps)
  qed
  have "currentTheme w = AUTO \<longrightarrow>
      handleSystemThemeChange m w = applyTheme (w\<lparr>systemPrefersDark := m\<rparr>)"
    by (simp add: handleSystemThemeChange_def)
  moreover have "currentTheme w \<noteq> AUTO \<longrightarrow>
      handleSystemThemeChange m w = Inr (w\<lparr>systemPrefersDark := m\<rparr>) \<and>
      elements (world_of (handleSystemThemeChange m w)) = elements w"
    by (simp add: handleSystemThemeChange_def world_of_simps)
  ultimately show ?thesis
    using applied handleSystemThemeChange_frame(1,2,3,4) [of m w] by blast
qed

theorem handleSystemThemeChange_reapplies_only_on_AUTO_witness:
  "currentTheme example_page = AUTO \<and> document_body example_page \<noteq> None \<and>
   theme_applied (world_of (handleSystemThemeChange False example_page)) \<and>
   systemPrefersDark (world_of (handleSystemThemeChange False example_page)) = False \<and>
   currentTheme (example_page\<lparr>currentTheme := LIGHT\<rparr>) \<noteq> AUTO \<and>
   handleSystemThemeChange False (example_page\<lparr>currentTheme := LIGHT\<rparr>) =
     Inr (example_page\<lparr>currentTheme := LIGHT, systemPrefersDark := False\<rparr>)"
proof -
  have a: "currentTheme example_page = AUTO" "document_body example_page \<noteq> None"
    and l: "currentTheme (example_page\<lparr>currentTheme := LIGHT\<rparr>) \<noteq> AUTO"
    by (simp_all add: example_page_fields themes_distinct)
  have "theme_applied (world_of (handleSystemThemeChange False example_page)) \<and>
    systemPrefersDark (world_of (handleSystemThemeChange False example_page)) = False"
    using handleSystemThemeChange_reapplies_only_on_AUTO [of False example_page] a by blast
  moreover have "handleSystemThemeChange False (example_page\<lparr>currentTheme := LIGHT\<rparr>) =
     Inr (example_page\<lparr>currentTheme := LIGHT, systemPrefersDark := False\<rparr>)"
    using handleSystemThemeChange_reapplies_only_on_AUTO
      [of False "example_page\<lparr>currentTheme := LIGHT\<rparr>"] l by blast
  ultimately show ?thesis using a l by blast
qed

subsection \<open>C5: saving and loading the preference\<close>

text \<open>
  Claim C5. For each of the three literals, saving the mode with
  \<open>saveThemePreference\<close> and loading it with \<open>loadThemePreference\<close> in a freshly
  loaded module gives the same \<open>currentTheme\<close> back (the storage neither failing on
  the write nor on the read). If the stored string is none of the three literals, or if
  nothing is stored, the freshly loaded module stays at its default AUTO.
\<close>

theorem theme_preference_roundtrip:
  "(currentTheme w \<in> set THEMES_values \<and> \<not> storage_setItem_throws w \<and> \<not> storage_getItem_throws w \<longrightarrow>
      currentTheme (world_of (loadThemePreference (fresh_module (world_of (saveThemePreference w))))) =
        currentTheme w) \<and>
   ((\<forall>s. localStorage w STORAGE_KEY = Some s \<longrightarrow> s \<notin> set THEMES_values) \<longrightarrow>
      currentTheme (world_of (loadThemePreference (fresh_module w))) = AUTO)"
  by (auto simp: saveThemePreference_eq loadThemePreference_eq fresh_module_def world_of_simps
      console_warn_def split: option.splits)

theorem theme_preference_roundtrip_witness:
  "currentTheme (world_of (loadThemePreference (fresh_module (world_of (saveThemePreference
      (example_page\<lparr>currentTheme := LIGHT\<rparr>)))))) = LIGHT \<and>
   currentTheme (world_of (loadThemePreference (fresh_module (world_of (saveThemePreference
      (example_page\<lparr>currentTheme := DARK\<rparr>)))))) = DARK \<and>
   currentTheme (world_of (loadThemePreference (fresh_module (world_of (saveThemePreference
      (example_page\<lparr>currentTheme := AUTO\<rparr>)))))) = AUTO \<and>
   currentTheme (world_of (loadThemePreference (fresh_module
      (example_page\<lparr>currentTheme := DARK, localStorage := [STORAGE_KEY \<mapsto> ''purple'']\<rparr>)))) = AUTO \<and>
   currentTheme (world_of (loadThemePreference (fresh_module
      (example_page\<lparr>currentTheme := DARK, localStorage := Map.empty\<rparr>)))) = AUTO"
  using theme_preference_roundtrip [of "example_page\<lparr>currentTheme := LIGHT\<rparr>"]
    theme_preference_roundtrip [of "example_page\<lparr>currentTheme := DARK\<rparr>"]
    theme_preference_roundtrip [of "example_page\<lparr>currentTheme := AUTO\<rparr>"]
    theme_preference_roundtrip [of "example_page\<lparr>currentTheme := DARK, localStorage := [STORAGE_KEY \<mapsto> ''purple'']\<rparr>"]
    theme_preference_roundtrip [of "example_page\<lparr>currentTheme := DARK, localStorage := Map.empty\<rparr>"]
  by (simp add: example_page_fields THEMES_values_def LIGHT_def DARK_def AUTO_def)

subsection \<open>C6: icon and tooltip\<close>

text \<open>
  Claim C6. Icon and tooltip are functions of \<open>currentTheme\<close> and the effective theme
  alone: \<open>updateThemeIcon\<close> leaves exactly one of the three glyph classes on the icon,
  chosen from \<open>currentTheme\<close> and its argument, and \<open>updateThemeTooltip\<close> writes the
  same text, chosen from \<open>currentTheme\<close>, to \<open>title\<close> and \<open>aria-label\<close>. After
  \<open>applyTheme\<close> the glyph is \<open>fa-adjust\<close> for AUTO, \<open>fa-moon\<close> for LIGHT and
  \<open>fa-sun\<close> for DARK, and the tooltip is "Switch to light mode" for AUTO, "Switch to
  dark mode" for LIGHT and "Switch to auto mode" for DARK.
\<close>

theorem icon_and_tooltip_table:
  assumes "document_body w = Some b" and "themeIcon w = Some icon" and "themeSwitcher w = Some sw"
  shows "(\<exists>w'. updateThemeIcon eff w = Inr w' \<and>
            filter (\<lambda>c. c \<in> set ICON_CLASSES) (classList (elements w' icon)) =
              [if currentTheme w = AUTO then ''fa-adjust''
               else if eff = DARK then ''fa-sun'' else ''fa-moon'']) \<and>
         (\<exists>w'. updateThemeTooltip w = Inr w' \<and>
            attributes (elements w' sw) ''title'' =
              Some (case tooltip_of (currentTheme w) of None \<Rightarrow> ''undefined'' | Some s \<Rightarrow> s) \<and>
            attributes (elements w' sw) ''aria-label'' = attributes (elements w' sw) ''title'') \<and>
         (\<exists>w'. applyTheme w = Inr w' \<and>
            (currentTheme w = AUTO \<longrightarrow>
               filter (\<lambda>c. c \<in> set ICON_CLASSES) (classList (elements w' icon)) = [''fa-adjust''] \<and>
               attributes (elements w' sw) ''title'' = Some ''Switch to light mode'' \<and>
               attributes (elements w' sw) ''aria-label'' = Some ''Switch to light mode'') \<and>
            (currentTheme w = LIGHT \<longrightarrow>
               filter (\<lambda>c. c \<in> set ICON_CLASSES) (classList (elements w' icon)) = [''fa-moon''] \<and>
               attributes (elements w' sw) ''title'' = Some ''Switch to dark mode'' \<and>
               attributes (elements w' sw) ''aria-label'' = Some ''Switch to dark mode'') \<and>
            (currentTheme w = DARK \<longrightarrow>
               filter (\<lambda>c. c \<in> set ICON_CLASSES) (classList (elements w' icon)) = [''fa-sun''] \<and>
               attributes (elements w' sw) ''title'' = Some ''Switch to auto mode'' \<and>
               attributes (elements w' sw) ''aria-label'' = Some ''Switch to auto mode''))"
proof -
  obtain w' where w': "applyTheme w = Inr w'"
    using applyTheme_total [OF assms(1)] by blast
  note icon = applyTheme_icon_class [OF assms(1,2) w']
  note tip = applyTheme_tooltip [OF assms(1,3) w']
  have auto: "filter (\<lambda>c. c \<in> set ICON_CLASSES) (classList (elements w' icon)) = [''fa-adjust''] \<and>
               attributes (elements w' sw) ''title'' = Some ''Switch to light mode'' \<and>
               attributes (elements w' sw) ''aria-label'' = Some ''Switch to light mode''"
    if "currentTheme w = AUTO"
    using icon tip that by (simp add: tooltip_of_themes)
  have light: "filter (\<lambda>c. c \<in> set ICON_CLASSES) (classList (elements w' icon)) = [''fa-moon''] \<and>
               attributes (elements w' sw) ''title'' = Some ''Switch to dark mode'' \<and>
               attributes (elements w' sw) ''aria-label'' = Some ''Switch to dark mode''"
    if "currentTheme w = LIGHT"
    using icon tip that by (simp add: tooltip_of_themes effectiveTheme_of_def themes_distinct)
  have dark: "filter (\<lambda>c. c \<in> set ICON_CLASSES) (classList (elements w' icon)) = [''fa-sun''] \<and>
               attributes (elements w' sw) ''title'' = Some ''Switch to auto mode'' \<and>
               attributes (elements w' sw) ''aria-label'' = Some ''Switch to auto mode''"
    if "currentTheme w = DARK"
    using icon tip that by (simp add: tooltip_of_themes effectiveTheme_of_def themes_distinct)
  from w' auto light dark
    updateThemeIcon_icon_class [OF assms(2), of eff] updateThemeTooltip_attributes [OF assms(3)]
  show ?thesis by blast
qed

theorem icon_and_tooltip_table_witness:
  "document_body example_page = Some 0 \<and> themeIcon example_page = Some 2 \<and>
   themeSwitcher example_page = Some 1 \<and>
   (\<exists>w'. applyTheme example_page = Inr w' \<and>
      filter (\<lambda>c. c \<in> set ICON_CLASSES) (classList (elements w' 2)) = [''fa-adjust''] \<and>
      attributes (elements w' 1) ''title'' = Some ''Switch to light mode'' \<and>
      attributes (elements w' 1) ''aria-label'' = Some ''Switch to light mode'') \<and>
   (\<exists>w'. applyTheme (example_page\<lparr>currentTheme := LIGHT\<rparr>) = Inr w' \<and>
      filter (\<lambda>c. c \<in> set ICON_CLASSES) (classList (elements w' 2)) = [''fa-moon''] \<and>
      attributes (elements w' 1) ''title'' = Some ''Switch to dark mode'' \<and>
      attributes (elements w' 1) ''aria-label'' = Some ''Switch to dark mode'') \<and>
   (\<exists>w'. applyTheme (example_page\<lparr>currentTheme := DARK\<rparr>) = Inr w' \<and>
      filter (\<lambda>c. c \<in> set ICON_CLASSES) (classList (elements w' 2)) = [''fa-sun''] \<and>
      attributes (elements w' 1) ''title'' = Some ''Switch to auto mode'' \<and>
      attributes (elements w' 1) ''aria-label'' = Some ''Switch to auto mode'')"
proof -
  have a: "document_body example_page = Some 0" "themeIcon example_page = Some 2"
    "themeSwitcher example_page = Some 1" "currentTheme example_page = AUTO"
    by (simp_all add: example_page_fields)
  have l: "document_body (example_page\<lparr>currentTheme := LIGHT\<rparr>) = Some 0"
    "themeIcon (example_page\<lparr>currentTheme := LIGHT\<rparr>) = Some 2"
    "themeSwitcher (example_page\<lparr>currentTheme := LIGHT\<rparr>) = Some 1"
    "currentTheme (example_page\<lparr>currentTheme := LIGHT\<rparr>) = LIGHT"
    by (simp_all add: example_page_fields)
  have d: "document_body (example_page\<lparr>currentTheme := DARK\<rparr>) = Some 0"
    "themeIcon (example_page\<lparr>currentTheme := DARK\<rparr>) = Some 2"
    "themeSwitcher (example_page\<lparr>currentTheme := DARK\<rparr>) = Some 1"
    "currentTheme (example_page\<lparr>currentTheme := DARK\<rparr>) = DARK"
    by (simp_all add: example_page_fields)
  from icon_and_tooltip_table [OF a(1,2,3), of DARK] a(4)
    icon_and_tooltip_table [OF l(1,2,3), of LIGHT] l(4)
    icon_and_tooltip_table [OF d(1,2,3), of DARK] d(4) a(1,2,3)
  show ?thesis by blast
qed

subsection \<open>C7: initialisation without the elements\<close>

text \<open>
  Claim C7. When \<open>init\<close> looks the elements up (the document is no longer loading) and
  the switcher or its icon is missing, it returns without an exception, having printed
  one warning and nothing else: no listener is added (none on the media query, no click
  or keydown), \<open>systemPrefersDark\<close> is not read from the system, the stored preference is
  not loaded (\<open>currentTheme\<close> and the storage are as before) and no element is
  written. Every later call of \<open>toggleTheme\<close> returns without an exception as well, on
  a document that has a body.
\<close>

theorem init_without_handles:
  assumes "readyState w \<noteq> ''loading''"
    and "getElementById w ''theme-switcher'' = None \<or>
         (\<exists>sw. getElementById w ''theme-switcher'' = Some sw \<and> querySelector w sw ''.theme-icon'' = None)"
  shows "\<exists>w'. init w = Inr w' \<and>
           console w' = console w @ [(''Theme switcher elements not found'', None)] \<and>
           listeners w' = listeners w \<and>
           systemPrefersDark w' = systemPrefersDark w \<and>
           currentTheme w' = currentTheme w \<and>
           localStorage w' = localStorage w \<and>
           elements w' = elements w \<and>
           themeSwitcher w' = getElementById w ''theme-switcher'' \<and>
           themeIcon w' = None \<and>
           (document_body w \<noteq> None \<longrightarrow> (\<forall>n. \<exists>w''. toggleTheme (toggles n w') = Inr w''))"
proof -
  define w' where "w' = console_warn ''Theme switcher elements not found'' None
            (w\<lparr>themeSwitcher := getElementById w ''theme-switcher'', themeIcon := None\<rparr>)"
  have init: "init w = Inr w'"
    unfolding w'_def by (rule init_aborted [OF assms])
  have body: "document_body w' = document_body w"
    by (simp add: w'_def console_warn_def)
  have "\<exists>w''. toggleTheme (toggles n w') = Inr w''" if present: "document_body w \<noteq> None" for n
  proof -
    have "document_body (toggles n w') \<noteq> None"
      using present body by (simp add: toggles_document_body)
    then obtain b where "document_body (toggles n w') = Some b"
      by blast
    then show ?thesis by (rule toggleTheme_total)
  qed
  with init show ?thesis
    by (simp add: w'_def console_warn_def)
qed

theorem init_without_handles_witness:
  "readyState bare_page \<noteq> ''loading'' \<and> getElementById bare_page ''theme-switcher'' = None \<and>
   localStorage bare_page STORAGE_KEY = Some LIGHT \<and> matchMedia bare_page = Some True \<and>
   (\<exists>w'. init bare_page = Inr w' \<and>
      console w' = [(''Theme switcher elements not found'', None)] \<and>
      listeners w' = [] \<and> \<not> systemPrefersDark w' \<and> currentTheme w' = AUTO \<and>
      (\<exists>w''. toggleTheme (toggles 0 w') = Inr w''))"
proof -
  have a: "readyState bare_page \<noteq> ''loading''"
    and b: "getElementById bare_page ''theme-switcher'' = None \<or>
         (\<exists>sw. getElementById bare_page ''theme-switcher'' = Some sw \<and>
           querySelector bare_page sw ''.theme-icon'' = None)"
    and c: "document_body bare_page \<noteq> None"
    by (simp_all add: bare_page_fields)
  from init_without_handles [OF a b] c
  obtain w' where "init bare_page = Inr w'"
    "console w' = console bare_page @ [(''Theme switcher elements not found'', None)]"
    "listeners w' = listeners bare_page" "systemPrefersDark w' = systemPrefersDark bare_page"
    "currentTheme w' = currentTheme bare_page"
    "\<exists>w''. toggleTheme (toggles 0 w') = Inr w''"
    by blast
  then have "init bare_page = Inr w' \<and>
      console w' = [(''Theme switcher elements not found'', None)] \<and>
      listeners w' = [] \<and> \<not> systemPrefersDark w' \<and> currentTheme w' = AUTO \<and>
      (\<exists>w''. toggleTheme (toggles 0 w') = Inr w'')"
    by (simp add: bare_page_fields)
  then have "\<exists>w'. init bare_page = Inr w' \<and>
      console w' = [(''Theme switcher elements not found'', None)] \<and>
      listeners w' = [] \<and> \<not> systemPrefersDark w' \<and> currentTheme w' = AUTO \<and>
      (\<exists>w''. toggleTheme (toggles 0 w') = Inr w'')"
    by blast
  moreover have "localStorage bare_page STORAGE_KEY = Some LIGHT" "matchMedia bare_page = Some True"
    "getElementById bare_page ''theme-switcher'' = None"
    by (simp_all add: bare_page_fields)
  ultimately show ?thesis
    using a by blast
qed

subsection \<open>C8: failures of the storage\<close>

text \<open>
  Claim C8. \<open>loadThemePreference\<close> and \<open>saveThemePreference\<close> never pass an exception
  on: when the read or the write throws, the result is the state they were called in with
  one warning printed. The caller goes on with the state in memory: \<open>toggleTheme\<close>
  with a failing write still advances the mode and applies it to the page, and \<open>init\<close>
  with a failing read still applies the theme and attaches its listeners.
\<close>

theorem storage_failures_are_caught:
  "(\<exists>w'. loadThemePreference w = Inr w') \<and> (\<exists>w'. saveThemePreference w = Inr w') \<and>
   (storage_getItem_throws w \<longrightarrow>
      loadThemePreference w =
        Inr (console_warn ''Could not load theme preference:'' (Some DOMException) w)) \<and>
   (storage_setItem_throws w \<longrightarrow>
      saveThemePreference w =
        Inr (console_warn ''Could not save theme preference:'' (Some DOMException) w)) \<and>
   (storage_setItem_throws w \<and> document_body w \<noteq> None \<longrightarrow>
      (\<exists>w'. toggleTheme w = Inr w' \<and> currentTheme w' = currentTheme (toggleTheme_switch w) \<and>
         theme_applied w' \<and> localStorage w' = localStorage w \<and>
         console w' = console w @ [(''Could not save theme preference:'', Some DOMException)])) \<and>
   (storage_getItem_throws w \<and> document_body w \<noteq> None \<and> readyState w \<noteq> ''loading'' \<and>
    getElementById w ''theme-switcher'' = Some sw \<and> querySelector w sw ''.theme-icon'' = Some icon \<longrightarrow>
      (\<exists>w'. init w = Inr w' \<and> currentTheme w' = currentTheme w \<and> theme_applied w' \<and>
         (Node sw, ''click'', H_handleThemeToggle) \<in> set (listeners w') \<and>
         console w' = console w @ [(''Could not load theme preference:'', Some DOMException)]))"
proof -
  have toggle: "\<exists>w'. toggleTheme w = Inr w' \<and> currentTheme w' = currentTheme (toggleTheme_switch w) \<and>
         theme_applied w' \<and> localStorage w' = localStorage w \<and>
         console w' = console w @ [(''Could not save theme preference:'', Some DOMException)]"
    if fails: "storage_setItem_throws w" and body: "document_body w \<noteq> None"
  proof -
    define ws where
      "ws = console_warn ''Could not save theme preference:'' (Some DOMException) (toggleTheme_switch w)"
    have eq: "toggleTheme w = applyTheme ws"
      using fails by (simp add: toggleTheme_eq ws_def)
    obtain b where "document_body w = Some b"
      using body by blast
    then have "document_body ws = Some b"
      by (simp add: ws_def console_warn_def toggleTheme_switch_fields)
    then obtain w' where w': "applyTheme ws = Inr w'"
      using applyTheme_total by blast
    have "currentTheme w' = currentTheme (toggleTheme_switch w)"
      "localStorage w' = localStorage w"
      "console w' = console w @ [(''Could not save theme preference:'', Some DOMException)]"
      using applyTheme_frame(3,7,8) [OF w']
      by (simp_all add: ws_def console_warn_def toggleTheme_switch_fields)
    with applyTheme_applies [OF w'] w' eq show ?thesis by simp
  qed
  have init: "\<exists>w'. init w = Inr w' \<and> currentTheme w' = currentTheme w \<and> theme_applied w' \<and>
         (Node sw, ''click'', H_handleThemeToggle) \<in> set (listeners w') \<and>
         console w' = console w @ [(''Could not load theme preference:'', Some DOMException)]"
    if fails: "storage_getItem_throws w" and body: "document_body w \<noteq> None"
      and found: "readyState w \<noteq> ''loading''" "getElementById w ''theme-switcher'' = Some sw"
        "querySelector w sw ''.theme-icon'' = Some icon"
  proof -
    obtain b where "document_body w = Some b"
      using body by blast
    from init_found_total [OF found this] fails show ?thesis by blast
  qed
  have "loadThemePreference w =
        Inr (console_warn ''Could not load theme preference:'' (Some DOMException) w)"
    if "storage_getItem_throws w"
    using that by (simp add: loadThemePreference_eq)
  moreover have "saveThemePreference w =
        Inr (console_warn ''Could not save theme preference:'' (Some DOMException) w)"
    if "storage_setItem_throws w"
    using that by (simp add: saveThemePreference_eq)
  moreover have "\<exists>w'. saveThemePreference w = Inr w'"
    by (simp add: saveThemePreference_eq)
  ultimately show ?thesis
    using toggle init loadThemePreference_total [of w] by blast
qed

theorem storage_failures_are_caught_witness:
  "storage_setItem_throws (example_page\<lparr>storage_setItem_throws := True\<rparr>) \<and>
   document_body (example_page\<lparr>storage_setItem_throws := True\<rparr>) \<noteq> None \<and>
   (\<exists>w'. toggleTheme (example_page\<lparr>storage_setItem_throws := True\<rparr>) = Inr w' \<and>
      currentTheme w' = LIGHT \<and> theme_applied w' \<and> localStorage w' STORAGE_KEY = None \<and>
      console w' = [(''Could not save theme preference:'', Some DOMException)]) \<and>
   storage_getItem_throws (example_page\<lparr>storage_getItem_throws := True\<rparr>) \<and>
   (\<exists>w'. init (example_page\<lparr>storage_getItem_throws := True\<rparr>) = Inr w' \<and>
      currentTheme w' = AUTO \<and> theme_applied w' \<and>
      (Node 1, ''click'', H_handleThemeToggle) \<in> set (listeners w') \<and>
      console w' = [(''Could not load theme preference:'', Some DOMException)])"
proof -
  define s where "s = example_page\<lparr>storage_setItem_throws := True\<rparr>"
  define g where "g = example_page\<lparr>storage_getItem_throws := True\<rparr>"
  have s: "storage_setItem_throws s \<and> document_body s \<noteq> None"
    and s': "currentTheme (toggleTheme_switch s) = LIGHT" "localStorage s = Map.empty"
      "console s = []"
    by (simp_all add: s_def example_page_fields example_page_storage toggleTheme_switch_mode)
  have g: "storage_getItem_throws g \<and> document_body g \<noteq> None \<and> readyState g \<noteq> ''loading'' \<and>
    getElementById g ''theme-switcher'' = Some 1 \<and> querySelector g 1 ''.theme-icon'' = Some 2"
    and g': "currentTheme g = AUTO" "console g = []"
    by (simp_all add: g_def example_page_fields example_page_storage del: One_nat_def)
  obtain w1 where w1: "toggleTheme s = Inr w1" "currentTheme w1 = currentTheme (toggleTheme_switch s)"
    "theme_applied w1" "localStorage w1 = localStorage s"
    "console w1 = console s @ [(''Could not save theme preference:'', Some DOMException)]"
    using storage_failures_are_caught [of s] s by blast
  obtain w2 where w2: "init g = Inr w2" "currentTheme w2 = currentTheme g" "theme_applied w2"
    "(Node 1, ''click'', H_handleThemeToggle) \<in> set (listeners w2)"
    "console w2 = console g @ [(''Could not load theme preference:'', Some DOMException)]"
    using storage_failures_are_caught [of g 1 2] g by blast
  have 1: "currentTheme w1 = LIGHT" "localStorage w1 STORAGE_KEY = None"
    "console w1 = [(''Could not save theme preference:'', Some DOMException)]"
    using w1 s' by simp_all
  have 2: "currentTheme w2 = AUTO"
    "console w2 = [(''Could not load theme preference:'', Some DOMException)]"
    using w2 g' by simp_all
  from w1(1,3) 1 w2(1,3,4) 2 s g show ?thesis
    unfolding s_def g_def by blast
qed

subsection \<open>C9: the body carries exactly one theme class\<close>

text \<open>
  Claim C9. Every run of \<open>applyTheme\<close> removes both theme classes
  (\<open>manual-light\<close>, \<open>manual-dark\<close>) from the body and then adds the one matching the
  effective theme. So after a call on a document with a body, the theme classes found in
  the body's class list are exactly one token, with one occurrence; it is
  \<open>manual-dark\<close> if and only if the effective theme is DARK, and \<open>manual-light\<close>
  otherwise. This holds also when the icon found by \<open>init\<close> is the body element itself.
\<close>

theorem applyTheme_one_body_class:
  assumes "document_body w = Some b"
  shows "\<exists>w'. applyTheme w = Inr w' \<and>
           filter (\<lambda>c. c \<in> set [BODY_CLASS_LIGHT, BODY_CLASS_DARK]) (classList (elements w' b)) =
             [if effectiveTheme_of w = DARK then BODY_CLASS_DARK else BODY_CLASS_LIGHT] \<and>
           (BODY_CLASS_DARK \<in> set (classList (elements w' b)) \<longleftrightarrow> effectiveTheme_of w = DARK) \<and>
           (BODY_CLASS_LIGHT \<in> set (classList (elements w' b)) \<longleftrightarrow> effectiveTheme_of w \<noteq> DARK)"
proof -
  obtain w' where w': "applyTheme w = Inr w'"
    using applyTheme_total [OF assms] by blast
  define cs where "cs = classList (elements w' b)"
  define t where "t = (if effectiveTheme_of w = DARK then BODY_CLASS_DARK else BODY_CLASS_LIGHT)"
  have f: "filter (\<lambda>c. c \<in> set [BODY_CLASS_LIGHT, BODY_CLASS_DARK]) cs = [t]"
    unfolding cs_def t_def by (rule applyTheme_body_class [OF assms w'])
  have "BODY_CLASS_DARK \<in> set cs \<longleftrightarrow>
          BODY_CLASS_DARK \<in> set (filter (\<lambda>c. c \<in> set [BODY_CLASS_LIGHT, BODY_CLASS_DARK]) cs)"
    by simp
  also have "\<dots> \<longleftrightarrow> BODY_CLASS_DARK = t"
    unfolding f by simp
  also have "\<dots> \<longleftrightarrow> effectiveTheme_of w = DARK"
    by (simp add: t_def body_classes_distinct)
  finally have dark: "BODY_CLASS_DARK \<in> set cs \<longleftrightarrow> effectiveTheme_of w = DARK" .
  have "BODY_CLASS_LIGHT \<in> set cs \<longleftrightarrow>
          BODY_CLASS_LIGHT \<in> set (filter (\<lambda>c. c \<in> set [BODY_CLASS_LIGHT, BODY_CLASS_DARK]) cs)"
    by simp
  also have "\<dots> \<longleftrightarrow> BODY_CLASS_LIGHT = t"
    unfolding f by simp
  also have "\<dots> \<longleftrightarrow> effectiveTheme_of w \<noteq> DARK"
    by (simp add: t_def body_classes_distinct)
  finally have light: "BODY_CLASS_LIGHT \<in> set cs \<longleftrightarrow> effectiveTheme_of w \<noteq> DARK" .
  from w' f dark light show ?thesis
    unfolding cs_def t_def by blast
qed

theorem applyTheme_one_body_class_witness:
  "document_body example_page = Some 0 \<and>
   (\<exists>w'. applyTheme example_page = Inr w' \<and>
      filter (\<lambda>c. c \<in> set [BODY_CLASS_LIGHT, BODY_CLASS_DARK]) (classList (elements w' 0)) =
        [BODY_CLASS_DARK] \<and>
      BODY_CLASS_DARK \<in> set (classList (elements w' 0)) \<and>
      BODY_CLASS_LIGHT \<notin> set (classList (elements w' 0)))"
  using applyTheme_one_body_class [of example_page 0]
  by (simp add: example_page_fields effectiveTheme_of_def)

subsection \<open>C10: toggling without the elements\<close>

text \<open>
  Claim C10. A call of \<open>toggleTheme\<close> while \<open>themeSwitcher\<close> and \<open>themeIcon\<close> are
  unset (initialisation gave up) is no no-op: it returns without an exception, advances
  \<open>currentTheme\<close> by the same transition, writes the new value to the storage (or
  prints the warning when the write throws) and rewrites the theme class of the body.
  Nothing else of the page changes: the icon update and the tooltip update return at
  their guards.
\<close>

theorem toggleTheme_without_handles:
  assumes "themeSwitcher w = None" and "themeIcon w = None" and "document_body w = Some b"
  shows "\<exists>w'. toggleTheme w = Inr w' \<and>
           (currentTheme w = AUTO \<longrightarrow>
              currentTheme w' = (if systemPrefersDark w then LIGHT else DARK)) \<and>
           (currentTheme w = LIGHT \<longrightarrow> currentTheme w' = DARK) \<and>
           (currentTheme w = DARK \<longrightarrow> currentTheme w' = AUTO) \<and>
           (\<not> storage_setItem_throws w \<longrightarrow>
              localStorage w' STORAGE_KEY = Some (currentTheme w')) \<and>
           (storage_setItem_throws w \<longrightarrow>
              console w' = console w @ [(''Could not save theme preference:'', Some DOMException)]) \<and>
           elements w' =
             (elements w)(b := (elements w b)
                \<lparr>classList :=
                   classList_add
                     (if effectiveTheme_of w' = DARK then BODY_CLASS_DARK else BODY_CLASS_LIGHT)
                     (classList_remove [BODY_CLASS_LIGHT, BODY_CLASS_DARK]
                        (classList (elements w b)))\<rparr>) \<and>
           updateThemeIcon (effectiveTheme_of w') w' = Inr w' \<and>
           updateThemeTooltip w' = Inr w'"
proof -
  define ws where "ws = (if storage_setItem_throws w
        then console_warn ''Could not save theme preference:'' (Some DOMException) (toggleTheme_switch w)
        else (toggleTheme_switch w)
               \<lparr>localStorage := (localStorage w)(STORAGE_KEY \<mapsto> currentTheme (toggleTheme_switch w))\<rparr>)"
  define w' where "w' = update_classList b
                     (\<lambda>cs. classList_add
                             (if effectiveTheme_of ws = DARK then BODY_CLASS_DARK else BODY_CLASS_LIGHT)
                             (classList_remove [BODY_CLASS_LIGHT, BODY_CLASS_DARK] cs)) ws"
  have ws: "themeSwitcher ws = None" "themeIcon ws = None" "document_body ws = Some b"
    "elements ws = elements w" "systemPrefersDark ws = systemPrefersDark w"
    "currentTheme ws = currentTheme (toggleTheme_switch w)"
    using assms by (simp_all add: ws_def toggleTheme_switch_fields console_warn_def)
  have toggle: "toggleTheme w = Inr w'"
    unfolding toggleTheme_eq ws_def [symmetric] applyTheme_eq [OF ws(3)]
    by (simp add: ws w'_def)
  have w': "themeSwitcher w' = None" "themeIcon w' = None" "currentTheme w' = currentTheme ws"
    "effectiveTheme_of w' = effectiveTheme_of ws" "localStorage w' = localStorage ws"
    "console w' = console ws"
    by (simp_all add: w'_def update_classList_fields ws effectiveTheme_of_update_classList)
  have stored: "localStorage w' STORAGE_KEY = Some (currentTheme w')"
    if "\<not> storage_setItem_throws w"
    using that by (simp add: w' ws_def)
  have warned: "console w' = console w @ [(''Could not save theme preference:'', Some DOMException)]"
    if "storage_setItem_throws w"
    using that by (simp add: w' ws_def console_warn_def toggleTheme_switch_fields)
  have elems: "elements w' =
             (elements w)(b := (elements w b)
                \<lparr>classList :=
                   classList_add
                     (if effectiveTheme_of w' = DARK then BODY_CLASS_DARK else BODY_CLASS_LIGHT)
                     (classList_remove [BODY_CLASS_LIGHT, BODY_CLASS_DARK]
                        (classList (elements w b)))\<rparr>)"
    unfolding w'(4) by (simp add: w'_def update_classList_def ws)
  have skipped: "updateThemeIcon (effectiveTheme_of w') w' = Inr w'" "updateThemeTooltip w' = Inr w'"
    by (simp_all add: updateThemeIcon_eq updateThemeTooltip_eq w')
  have "currentTheme w' = currentTheme (toggleTheme_switch w)"
    by (simp add: w' ws)
  then have mode: "currentTheme w = AUTO \<longrightarrow>
              currentTheme w' = (if systemPrefersDark w then LIGHT else DARK)"
    "currentTheme w = LIGHT \<longrightarrow> currentTheme w' = DARK"
    "currentTheme w = DARK \<longrightarrow> currentTheme w' = AUTO"
    by (simp_all add: toggleTheme_switch_mode themes_distinct)
  from toggle mode stored warned elems skipped show ?thesis
    by blast
qed

theorem toggleTheme_without_handles_witness:
  "themeSwitcher bare_page = None \<and> themeIcon bare_page = None \<and>
   document_body bare_page = Some 0 \<and> currentTheme bare_page = AUTO \<and>
   \<not> systemPrefersDark bare_page \<and> localStorage bare_page STORAGE_KEY = Some LIGHT \<and>
   (\<exists>w'. toggleTheme bare_page = Inr w' \<and> currentTheme w' = DARK \<and>
      localStorage w' STORAGE_KEY = Some DARK \<and>
      classList (elements w' 0) = [BODY_CLASS_DARK] \<and>
      elements w' 1 = elements bare_page 1 \<and> elements w' 2 = elements bare_page 2)"
proof -
  have a: "themeSwitcher bare_page = None" "themeIcon bare_page = None"
    "document_body bare_page = Some 0"
    and b: "currentTheme bare_page = AUTO" "\<not> systemPrefersDark bare_page"
    "\<not> storage_setItem_throws bare_page" "localStorage bare_page STORAGE_KEY = Some LIGHT"
    by (simp_all add: bare_page_fields)
  from toggleTheme_without_handles [OF a] b(1,2,3)
  obtain w' where w': "toggleTheme bare_page = Inr w'" "currentTheme w' = DARK"
    "localStorage w' STORAGE_KEY = Some (currentTheme w')"
    "elements w' =
       (elements bare_page)(0 := (elements bare_page 0)
          \<lparr>classList :=
             classList_add
               (if effectiveTheme_of w' = DARK then BODY_CLASS_DARK else BODY_CLASS_LIGHT)
               (classList_remove [BODY_CLASS_LIGHT, BODY_CLASS_DARK]
                  (classList (elements bare_page 0)))\<rparr>)"
    by auto
  have "effectiveTheme_of w' = DARK"
    by (simp add: effectiveTheme_of_def w'(2) themes_distinct)
  then have "classList (elements w' 0) = [BODY_CLASS_DARK]"
    "elements w' 1 = elements bare_page 1" "elements w' 2 = elements bare_page 2"
    unfolding w'(4)
    by (simp_all add: bare_page_fields classList_add_def classList_remove_def)
  with w'(1,2,3) a b show ?thesis by auto
qed

end
